theory Spec2Isabelle
  imports Complex_Main
begin

section \<open>The datetime formatter of sdgx\<close>

text \<open>
  A shallow embedding of \<^verbatim>\<open>sdgx/data_processors/formatters/datetime.py\<close>: the class
  \<^verbatim>\<open>DatetimeFormatter\<close> with its methods \<^verbatim>\<open>fit\<close>, \<^verbatim>\<open>convert\<close>,
  \<^verbatim>\<open>convert_datetime_columns\<close>, \<^verbatim>\<open>reverse_convert\<close> and
  \<^verbatim>\<open>convert_timestamp_to_datetime\<close>.
\<close>

subsection \<open>Cell values\<close>

text \<open>
  A Python number: a finite \<^verbatim>\<open>float\<close> (\<open>Fin\<close>, with its value, a rational), an \<^verbatim>\<open>int\<close>
  (\<open>PyInt\<close>), or one of the two infinite floats. An \<^verbatim>\<open>int\<close> and a \<^verbatim>\<open>float\<close> of the same
  value are different cells: \<^verbatim>\<open>str\<close> renders them differently. The float \<^verbatim>\<open>nan\<close> is not a
  number here: it is pandas' missing-value marker.
\<close>

datatype pynum = Fin rat | PyInt int | PosInf | NegInf

text \<open>Python's \<^verbatim>\<open>lo <= x\<close> and \<^verbatim>\<open>x <= hi\<close> for integer bounds: exact comparisons.\<close>

fun int_le_num :: "int \<Rightarrow> pynum \<Rightarrow> bool" where
  "int_le_num lo (Fin q) = (of_int lo \<le> q)"
| "int_le_num lo (PyInt k) = (lo \<le> k)"
| "int_le_num lo PosInf = True"
| "int_le_num lo NegInf = False"

fun num_le_int :: "pynum \<Rightarrow> int \<Rightarrow> bool" where
  "num_le_int (Fin q) hi = (q \<le> of_int hi)"
| "num_le_int (PyInt k) hi = (k \<le> hi)"
| "num_le_int PosInf hi = False"
| "num_le_int NegInf hi = True"

text \<open>
  A cell of a DataFrame, by the four kinds of value the formatter tells apart:
  a missing value (\<^verbatim>\<open>None\<close>, \<^verbatim>\<open>nan\<close>, \<^verbatim>\<open>NaT\<close>: whatever \<^verbatim>\<open>pd.isna\<close> accepts), a native
  \<^verbatim>\<open>datetime\<close> or \<^verbatim>\<open>pd.Timestamp\<close>, a string, a number. The type \<open>'d\<close> is the
  library's datetime type.
\<close>

datatype 'd cell = Missing | Native 'd | Text string | Num pynum

subsection \<open>The standard library, as a parameter\<close>

text \<open>
  The functions of Python's \<^verbatim>\<open>datetime\<close> module that the formatter calls are not code of
  this repository; they depend on the platform and on the local time zone. They are taken as
  a parameter. \<open>None\<close> stands for a raised exception.
  \<^item> \<open>strptime L s f\<close>: \<^verbatim>\<open>datetime.strptime(s, f)\<close>;
  \<^item> \<open>timestamp L d\<close>: \<^verbatim>\<open>datetime.timestamp(d)\<close>;
  \<^item> \<open>fromtimestamp L t\<close>: \<^verbatim>\<open>datetime.fromtimestamp(t)\<close>;
  \<^item> \<open>strftime L d f\<close>: \<^verbatim>\<open>d.strftime(f)\<close>;
  \<^item> \<open>str_num L x\<close>: \<^verbatim>\<open>str(x)\<close> for a number \<open>x\<close>.
\<close>

record 'd pylib =
  strptime :: "string \<Rightarrow> string \<Rightarrow> 'd option"
  timestamp :: "'d \<Rightarrow> rat option"
  fromtimestamp :: "rat \<Rightarrow> 'd option"
  strftime :: "'d \<Rightarrow> string \<Rightarrow> string option"
  str_num :: "pynum \<Rightarrow> string"

subsection \<open>The per-cell converters\<close>

text \<open>
  The body of the \<^verbatim>\<open>try\<close> block of \<^verbatim>\<open>datetime_formatter\<close>; \<open>None\<close> is an exception
  raised inside it. A missing value comes back as \<^verbatim>\<open>np.nan\<close>; a native datetime goes to
  \<^verbatim>\<open>datetime.timestamp\<close> directly; every other value is stringified with \<^verbatim>\<open>str\<close> and
  parsed with the column's format.
\<close>

fun datetime_formatter_try :: "'d pylib \<Rightarrow> 'd cell \<Rightarrow> string \<Rightarrow> 'd cell option" where
  "datetime_formatter_try L Missing f = Some Missing"
| "datetime_formatter_try L (Native d) f = map_option (\<lambda>t. Num (Fin t)) (timestamp L d)"
| "datetime_formatter_try L (Text s) f =
     Option.bind (strptime L s f) (\<lambda>d. map_option (\<lambda>t. Num (Fin t)) (timestamp L d))"
| "datetime_formatter_try L (Num x) f =
     Option.bind (strptime L (str_num L x) f) (\<lambda>d. map_option (\<lambda>t. Num (Fin t)) (timestamp L d))"

text \<open>\<^verbatim>\<open>datetime_formatter\<close>: the \<^verbatim>\<open>except Exception\<close> branch logs and returns \<^verbatim>\<open>np.nan\<close>.\<close>

definition datetime_formatter :: "'d pylib \<Rightarrow> 'd cell \<Rightarrow> string \<Rightarrow> 'd cell" where
  "datetime_formatter L v f =
     (case datetime_formatter_try L v f of None \<Rightarrow> Missing | Some c \<Rightarrow> c)"

definition sentinel :: string where
  "sentinel = ''No Datetime''"

definition max_timestamp :: int where
  "max_timestamp = 253402300799"

text \<open>
  The body of the \<^verbatim>\<open>try\<close> block of \<^verbatim>\<open>column_timestamp_formatter\<close>. A missing value
  gives the sentinel. The comparison \<^verbatim>\<open>0 <= each_stamp <= 253402300799\<close> raises
  \<^verbatim>\<open>TypeError\<close> on a string and on a native datetime. A number outside the range gives the
  sentinel; one inside goes to \<^verbatim>\<open>datetime.fromtimestamp\<close> and \<^verbatim>\<open>strftime\<close>.
\<close>

fun column_timestamp_formatter_try :: "'d pylib \<Rightarrow> 'd cell \<Rightarrow> string \<Rightarrow> string option" where
  "column_timestamp_formatter_try L Missing f = Some sentinel"
| "column_timestamp_formatter_try L (Native d) f = None"
| "column_timestamp_formatter_try L (Text s) f = None"
| "column_timestamp_formatter_try L (Num x) f =
     (if \<not> (int_le_num 0 x \<and> num_le_int x max_timestamp) then Some sentinel
      else case x of
        Fin q \<Rightarrow> Option.bind (fromtimestamp L q) (\<lambda>d. strftime L d f)
      | PyInt k \<Rightarrow> Option.bind (fromtimestamp L (of_int k)) (\<lambda>d. strftime L d f)
      | PosInf \<Rightarrow> None
      | NegInf \<Rightarrow> None)"

text \<open>\<^verbatim>\<open>column_timestamp_formatter\<close>: the \<^verbatim>\<open>except Exception\<close> branch returns the sentinel.\<close>

definition column_timestamp_formatter :: "'d pylib \<Rightarrow> 'd cell \<Rightarrow> string \<Rightarrow> 'd cell" where
  "column_timestamp_formatter L v f =
     Text (case column_timestamp_formatter_try L v f of None \<Rightarrow> sentinel | Some s \<Rightarrow> s)"

subsection \<open>Tables and the store\<close>

text \<open>
  A DataFrame: its columns in order, each a label with its cells. The model is of DataFrames
  whose labels are distinct, as DataFrames built from named columns have them: on a repeated
  label \<^verbatim>\<open>df[c]\<close> is not one column but a DataFrame of all the columns so labelled. The
  theorems that follow a cell through \<^verbatim>\<open>convert\<close> or \<^verbatim>\<open>reverse_convert\<close> have the
  hypothesis \<open>distinct (columns t)\<close> on the caller's table.
\<close>

type_synonym 'd table = "(string \<times> 'd cell list) list"

definition columns :: "'d table \<Rightarrow> string list" where
  "columns t = map fst t"

text \<open>\<^verbatim>\<open>df[c]\<close>: the column, \<open>None\<close> where pandas raises \<^verbatim>\<open>KeyError\<close>.\<close>

definition getitem :: "'d table \<Rightarrow> string \<Rightarrow> 'd cell list option" where
  "getitem t c = map_of t c"

text \<open>\<^verbatim>\<open>df[c] = col\<close>: replaces the column in place, or appends a new last column.\<close>

definition setitem :: "'d table \<Rightarrow> string \<Rightarrow> 'd cell list \<Rightarrow> 'd table" where
  "setitem t c col =
     (if c \<in> set (columns t) then map (\<lambda>(n, x). if n = c then (n, col) else (n, x)) t
      else t @ [(c, col)])"

datatype error = KeyError string

text \<open>
  DataFrames are mutable objects: the caller and the formatter hold references to them. The
  store is the list of all DataFrame objects, a reference is an index into it, and a new
  object is allocated at the end.
\<close>

type_synonym 'd heap = "'d table list"

text \<open>\<^verbatim>\<open>df.copy()\<close>: a new object with the same contents.\<close>

definition df_copy :: "nat \<Rightarrow> 'd heap \<Rightarrow> nat \<times> 'd heap" where
  "df_copy a h = (length h, h @ [h ! a])"

text \<open>
  Modelled from the spec: \<^verbatim>\<open>Formatter.remove_columns\<close> of the base class
  (\<^verbatim>\<open>sdgx/data_processors/formatters/base.py\<close>), which is not among the sources. The spec
  calls it the operation shared with the other formatters, "remove named columns, no error if
  absent", and has every operation return a new table.
\<close>

definition remove_columns :: "nat \<Rightarrow> string list \<Rightarrow> 'd heap \<Rightarrow> nat \<times> 'd heap" where
  "remove_columns a cs h = (length h, h @ [filter (\<lambda>(n, x). n \<notin> set cs) (h ! a)])"

subsection \<open>The formatter and \<^verbatim>\<open>fit\<close>\<close>

text \<open>
  The attributes of a \<^verbatim>\<open>DatetimeFormatter\<close>. \<open>datetime_columns\<close> is what the spec calls
  \<^verbatim>\<open>usable_columns\<close>, \<open>datetime_formats\<close> its \<^verbatim>\<open>formats\<close>.
\<close>

record formatter =
  fitted :: bool
  datetime_columns :: "string list"
  datetime_formats :: "string \<rightharpoonup> string"
  dead_columns :: "string list"

text \<open>\<^verbatim>\<open>__init__\<close>; the \<^verbatim>\<open>defaultdict(str)\<close> starts with no key.\<close>

definition init :: formatter where
  "init = \<lparr>fitted = False, datetime_columns = [], datetime_formats = Map.empty,
           dead_columns = []\<rparr>"

text \<open>
  What \<^verbatim>\<open>fit\<close> reads from the metadata object (the class \<^verbatim>\<open>Metadata\<close> is not among the
  sources): the dictionary \<^verbatim>\<open>datetime_format\<close>, the set \<^verbatim>\<open>datetime_columns\<close> in the order
  in which the loop iterates over it, and the set \<^verbatim>\<open>discrete_columns\<close>.
\<close>

record metadata =
  meta_datetime_format :: "string \<rightharpoonup> string"
  meta_datetime_columns :: "string list"
  meta_discrete_columns :: "string set"

text \<open>The calls by which \<^verbatim>\<open>fit\<close> changes the metadata object.\<close>

datatype metadata_call =
  ChangeColumnType "string list" string string
| RemoveColumn "string list"

text \<open>
  The loop of \<^verbatim>\<open>fit\<close> over \<^verbatim>\<open>meta_datetime_columns\<close>, with the two lists it appends to.
  The test is \<^verbatim>\<open>each_col in self.datetime_formats.keys()\<close>.
\<close>

fun fit_loop ::
  "(string \<rightharpoonup> string) \<Rightarrow> string list \<Rightarrow> string list \<Rightarrow> string list \<Rightarrow> string list \<times> string list"
where
  "fit_loop F [] us ds = (us, ds)"
| "fit_loop F (c # cs) us ds =
     (case F c of
        Some f \<Rightarrow> fit_loop F cs (us @ [c]) ds
      | None \<Rightarrow> fit_loop F cs us (ds @ [c]))"

text \<open>
  \<^verbatim>\<open>fit\<close>: the fitted formatter and the calls made on the metadata object, in order. The
  reclassification is guarded by
  \<^verbatim>\<open>not (set(datetime_columns) - set(metadata.discrete_columns))\<close>.
\<close>

definition fit :: "metadata \<Rightarrow> formatter \<times> metadata_call list" where
  "fit m =
     (case fit_loop (meta_datetime_format m) (meta_datetime_columns m) [] [] of
        (us, ds) \<Rightarrow>
          (\<lparr>fitted = True, datetime_columns = us,
            datetime_formats = meta_datetime_format m, dead_columns = ds\<rparr>,
           (if set us - meta_discrete_columns m = {}
            then [ChangeColumnType us ''discrete'' ''datetime''] else [])
           @ [RemoveColumn ds]))"

subsection \<open>\<^verbatim>\<open>convert\<close>\<close>

text \<open>
  The loop of \<^verbatim>\<open>convert_datetime_columns\<close> over the column list, on the object \<open>r\<close>:
  \<^verbatim>\<open>result_data[column] = result_data[column].apply(datetime_formatter,
  datetime_format=datetime_formats[column])\<close>. Reading a column that the table does not have
  raises \<^verbatim>\<open>KeyError\<close>, and so does \<^verbatim>\<open>datetime_formats[column]\<close> on a dictionary without
  the key. The result is the exception, if any, and the store.
\<close>

fun convert_loop ::
  "'d pylib \<Rightarrow> (string \<rightharpoonup> string) \<Rightarrow> string list \<Rightarrow> nat \<Rightarrow> 'd heap \<Rightarrow> error option \<times> 'd heap"
where
  "convert_loop L F [] r h = (None, h)"
| "convert_loop L F (c # cs) r h =
     (case getitem (h ! r) c of
        None \<Rightarrow> (Some (KeyError c), h)
      | Some col \<Rightarrow>
          (case F c of
             None \<Rightarrow> (Some (KeyError c), h)
           | Some f \<Rightarrow>
               convert_loop L F cs r
                 (h[r := setitem (h ! r) c (map (\<lambda>v. datetime_formatter L v f) col)])))"

text \<open>\<^verbatim>\<open>convert_datetime_columns\<close>: works on a copy and returns it.\<close>

definition convert_datetime_columns ::
  "'d pylib \<Rightarrow> string list \<Rightarrow> (string \<rightharpoonup> string) \<Rightarrow> nat \<Rightarrow> 'd heap \<Rightarrow> (error + nat) \<times> 'd heap"
where
  "convert_datetime_columns L cs F a h =
     (case df_copy a h of
        (r, h1) \<Rightarrow>
          (case convert_loop L F cs r h1 of
             (Some e, h2) \<Rightarrow> (Inl e, h2)
           | (None, h2) \<Rightarrow> (Inr r, h2)))"

text \<open>
  The loop of \<^verbatim>\<open>convert\<close> over \<^verbatim>\<open>dead_columns\<close>:
  \<^verbatim>\<open>raw_data = self.remove_columns(raw_data, [each_col])\<close>.
\<close>

fun remove_dead :: "string list \<Rightarrow> nat \<Rightarrow> 'd heap \<Rightarrow> nat \<times> 'd heap" where
  "remove_dead [] a h = (a, h)"
| "remove_dead (c # cs) a h = (case remove_columns a [c] h of (a', h') \<Rightarrow> remove_dead cs a' h')"

text \<open>
  \<^verbatim>\<open>convert\<close>, called with the reference \<open>a\<close> to the caller's table: the reference it
  returns (or the exception it raises) and the store afterwards.
\<close>

definition convert :: "'d pylib \<Rightarrow> formatter \<Rightarrow> nat \<Rightarrow> 'd heap \<Rightarrow> (error + nat) \<times> 'd heap" where
  "convert L self a h =
     (if length (datetime_columns self) = 0 then (Inr a, h)
      else case remove_dead (dead_columns self) a h of
        (a1, h1) \<Rightarrow>
          convert_datetime_columns L (datetime_columns self) (datetime_formats self) a1 h1)"

subsection \<open>\<^verbatim>\<open>reverse_convert\<close>\<close>

text \<open>
  The loop of \<^verbatim>\<open>convert_timestamp_to_datetime\<close>: a column that the table does not have is
  logged and skipped; \<^verbatim>\<open>format_dict[column]\<close> raises \<^verbatim>\<open>KeyError\<close> on a dictionary without
  the key.
\<close>

fun reverse_loop ::
  "'d pylib \<Rightarrow> (string \<rightharpoonup> string) \<Rightarrow> string list \<Rightarrow> nat \<Rightarrow> 'd heap \<Rightarrow> error option \<times> 'd heap"
where
  "reverse_loop L F [] r h = (None, h)"
| "reverse_loop L F (c # cs) r h =
     (case getitem (h ! r) c of
        None \<Rightarrow> reverse_loop L F cs r h
      | Some col \<Rightarrow>
          (case F c of
             None \<Rightarrow> (Some (KeyError c), h)
           | Some f \<Rightarrow>
               reverse_loop L F cs r
                 (h[r := setitem (h ! r) c (map (\<lambda>v. column_timestamp_formatter L v f) col)])))"

definition convert_timestamp_to_datetime ::
  "'d pylib \<Rightarrow> string list \<Rightarrow> (string \<rightharpoonup> string) \<Rightarrow> nat \<Rightarrow> 'd heap \<Rightarrow> (error + nat) \<times> 'd heap"
where
  "convert_timestamp_to_datetime L cs F a h =
     (case df_copy a h of
        (r, h1) \<Rightarrow>
          (case reverse_loop L F cs r h1 of
             (Some e, h2) \<Rightarrow> (Inl e, h2)
           | (None, h2) \<Rightarrow> (Inr r, h2)))"

definition reverse_convert ::
  "'d pylib \<Rightarrow> formatter \<Rightarrow> nat \<Rightarrow> 'd heap \<Rightarrow> (error + nat) \<times> 'd heap" where
  "reverse_convert L self a h =
     (if length (datetime_columns self) = 0 then (Inr a, h)
      else convert_timestamp_to_datetime L (datetime_columns self) (datetime_formats self) a h)"

subsection \<open>An instance of the library\<close>

text \<open>
  A small instance of the library interface, for running the model on concrete tables: the
  local time zone is UTC, the format directives are \<^verbatim>\<open>%Y\<close>, \<^verbatim>\<open>%m\<close>, \<^verbatim>\<open>%d\<close>, \<^verbatim>\<open>%H\<close>,
  \<^verbatim>\<open>%M\<close> and \<^verbatim>\<open>%S\<close> with fixed widths, and times are whole seconds. The theorems below hold
  for every library; this one supplies their concrete instances.
\<close>

datatype civil =
  Civil (year: int) (month: int) (day: int) (hour: int) (minute: int) (second: int)

definition is_leap :: "int \<Rightarrow> bool" where
  "is_leap y = (if y mod 400 = 0 then True else if y mod 100 = 0 then False else y mod 4 = 0)"

definition days_in_month :: "int \<Rightarrow> int \<Rightarrow> int" where
  "days_in_month y m =
     (if m = 2 then (if is_leap y then 29 else 28)
      else if m = 4 \<or> m = 6 \<or> m = 9 \<or> m = 11 then 30 else 31)"

text \<open>Days between 1970-01-01 and a date of the proleptic Gregorian calendar, and back.\<close>

definition days_from_civil :: "int \<Rightarrow> int \<Rightarrow> int \<Rightarrow> int" where
  "days_from_civil y m d =
     (let y1 = (if m \<le> 2 then y - 1 else y);
          era = y1 div 400;
          yoe = y1 - era * 400;
          doy = (153 * (if 2 < m then m - 3 else m + 9) + 2) div 5 + d - 1;
          doe = yoe * 365 + yoe div 4 - yoe div 100 + doy
      in era * 146097 + doe - 719468)"

definition civil_from_days :: "int \<Rightarrow> int \<times> int \<times> int" where
  "civil_from_days z =
     (let z1 = z + 719468;
          era = z1 div 146097;
          doe = z1 - era * 146097;
          yoe = (doe - doe div 1460 + doe div 36524 - doe div 146096) div 365;
          doy = doe - (365 * yoe + yoe div 4 - yoe div 100);
          mp = (5 * doy + 2) div 153;
          d = doy - (153 * mp + 2) div 5 + 1;
          m = (if mp < 10 then mp + 3 else mp - 9);
          y = yoe + era * 400
      in (if m \<le> 2 then y + 1 else y, m, d))"

definition digit_val :: "char \<Rightarrow> int option" where
  "digit_val c =
     (let n = (of_char c :: int) in if 48 \<le> n \<and> n \<le> 57 then Some (n - 48) else None)"

definition digit_char :: "int \<Rightarrow> char" where
  "digit_char n = char_of (48 + n mod 10)"

text \<open>Exactly \<open>n\<close> decimal digits at the head of a string: their value and the rest.\<close>

fun read_digits :: "nat \<Rightarrow> string \<Rightarrow> (int \<times> string) option" where
  "read_digits 0 s = Some (0, s)"
| "read_digits (Suc n) [] = None"
| "read_digits (Suc n) (c # s) =
     (case digit_val c of
        None \<Rightarrow> None
      | Some v \<Rightarrow> map_option (\<lambda>(w, rest). (v * 10 ^ n + w, rest)) (read_digits n s))"

definition set_field :: "char \<Rightarrow> int \<Rightarrow> civil \<Rightarrow> civil option" where
  "set_field k v c =
     (if k = CHR ''Y'' then Some (Civil v (month c) (day c) (hour c) (minute c) (second c))
      else if k = CHR ''m'' then Some (Civil (year c) v (day c) (hour c) (minute c) (second c))
      else if k = CHR ''d'' then Some (Civil (year c) (month c) v (hour c) (minute c) (second c))
      else if k = CHR ''H'' then Some (Civil (year c) (month c) (day c) v (minute c) (second c))
      else if k = CHR ''M'' then Some (Civil (year c) (month c) (day c) (hour c) v (second c))
      else if k = CHR ''S'' then Some (Civil (year c) (month c) (day c) (hour c) (minute c) v)
      else None)"

definition get_field :: "char \<Rightarrow> civil \<Rightarrow> int option" where
  "get_field k c =
     (if k = CHR ''Y'' then Some (year c)
      else if k = CHR ''m'' then Some (month c)
      else if k = CHR ''d'' then Some (day c)
      else if k = CHR ''H'' then Some (hour c)
      else if k = CHR ''M'' then Some (minute c)
      else if k = CHR ''S'' then Some (second c)
      else None)"

definition field_width :: "char \<Rightarrow> nat" where
  "field_width k = (if k = CHR ''Y'' then 4 else 2)"

text \<open>Matching an input string against a format string, filling the fields in.\<close>

fun utc_parse :: "string \<Rightarrow> string \<Rightarrow> civil \<Rightarrow> civil option" where
  "utc_parse [] s acc = (if s = [] then Some acc else None)"
| "utc_parse [c] s acc =
     (case s of
        [] \<Rightarrow> None
      | x # rest \<Rightarrow>
          if c = CHR ''%'' then None else if x = c then utc_parse [] rest acc else None)"
| "utc_parse (c # k # fs) s acc =
     (if c = CHR ''%'' then
        (case read_digits (field_width k) s of
           None \<Rightarrow> None
         | Some (v, rest) \<Rightarrow>
             (case set_field k v acc of None \<Rightarrow> None | Some acc' \<Rightarrow> utc_parse fs rest acc'))
      else case s of
          [] \<Rightarrow> None
        | x # rest \<Rightarrow> if x = c then utc_parse (k # fs) rest acc else None)"

definition valid_civil :: "civil \<Rightarrow> bool" where
  "valid_civil c =
     (1 \<le> year c \<and> year c \<le> 9999 \<and> 1 \<le> month c \<and> month c \<le> 12 \<and> 1 \<le> day c
      \<and> day c \<le> days_in_month (year c) (month c)
      \<and> hour c < 24 \<and> minute c < 60 \<and> second c < 60)"

definition utc_strptime :: "string \<Rightarrow> string \<Rightarrow> civil option" where
  "utc_strptime s f =
     (case utc_parse f s (Civil 1900 1 1 0 0 0) of
        None \<Rightarrow> None
      | Some c \<Rightarrow> if valid_civil c then Some c else None)"

definition utc_timestamp :: "civil \<Rightarrow> rat option" where
  "utc_timestamp c =
     Some (of_int (days_from_civil (year c) (month c) (day c) * 86400
                   + hour c * 3600 + minute c * 60 + second c))"

definition utc_fromtimestamp :: "rat \<Rightarrow> civil option" where
  "utc_fromtimestamp q =
     (let n = \<lfloor>q\<rfloor>; s = n mod 86400 in
      case civil_from_days (n div 86400) of
        (y, m, d) \<Rightarrow>
          if 1 \<le> y \<and> y \<le> 9999
          then Some (Civil y m d (s div 3600) (s mod 3600 div 60) (s mod 60)) else None)"

function show_int :: "int \<Rightarrow> string" where
  "show_int n = (if n < 10 then [digit_char n] else show_int (n div 10) @ [digit_char n])"
  by pat_completeness auto
termination
  by (relation "measure nat") auto

declare show_int.simps [simp del]

text \<open>The last \<open>w\<close> decimal digits of a number, with leading zeros.\<close>

fun pad :: "nat \<Rightarrow> int \<Rightarrow> string" where
  "pad 0 n = []"
| "pad (Suc w) n = pad w (n div 10) @ [digit_char n]"

fun utc_render :: "string \<Rightarrow> civil \<Rightarrow> string option" where
  "utc_render [] c = Some []"
| "utc_render [x] c = (if x = CHR ''%'' then None else Some [x])"
| "utc_render (x # k # fs) c =
     (if x = CHR ''%'' then
        (case get_field k c of
           None \<Rightarrow> None
         | Some v \<Rightarrow> map_option (\<lambda>r. pad (field_width k) v @ r) (utc_render fs c))
      else map_option (\<lambda>r. x # r) (utc_render (k # fs) c))"

definition utc_strftime :: "civil \<Rightarrow> string \<Rightarrow> string option" where
  "utc_strftime c f = utc_render f c"

definition strip_zeros :: "string \<Rightarrow> string" where
  "strip_zeros ds =
     (case rev (dropWhile (\<lambda>c. c = CHR ''0'') (rev ds)) of [] \<Rightarrow> ''0'' | x # xs \<Rightarrow> x # xs)"

text \<open>
  \<^verbatim>\<open>str\<close> of a number: \<^verbatim>\<open>str(20230101)\<close> is \<^verbatim>\<open>'20230101'\<close>, and
  \<^verbatim>\<open>str(1672531200.0)\<close> is \<^verbatim>\<open>'1672531200.0'\<close> (floats of moderate size with at most six
  decimals).
\<close>

definition utc_str_num :: "pynum \<Rightarrow> string" where
  "utc_str_num x =
     (case x of
        PosInf \<Rightarrow> ''inf''
      | NegInf \<Rightarrow> ''-inf''
      | PyInt k \<Rightarrow> (if k < 0 then ''-'' else []) @ show_int \<bar>k\<bar>
      | Fin q \<Rightarrow>
          (if q < 0 then ''-'' else [])
          @ show_int \<lfloor>\<bar>q\<bar>\<rfloor> @ ''.''
          @ strip_zeros (pad 6 \<lfloor>(\<bar>q\<bar> - of_int \<lfloor>\<bar>q\<bar>\<rfloor>) * 1000000\<rfloor>))"

definition utc :: "civil pylib" where
  "utc = \<lparr>strptime = utc_strptime, timestamp = utc_timestamp,
          fromtimestamp = utc_fromtimestamp, strftime = utc_strftime, str_num = utc_str_num\<rparr>"

text \<open>
  The same library in a local time zone that is a fixed number of seconds ahead of UTC:
  \<^verbatim>\<open>datetime.timestamp\<close> reads a datetime without time zone as local time, and
  \<^verbatim>\<open>datetime.fromtimestamp\<close> gives local time, raising \<^verbatim>\<open>ValueError\<close> when the local year
  is outside 1 to 9999.
\<close>

definition zone :: "int \<Rightarrow> civil pylib" where
  "zone off =
     \<lparr>strptime = utc_strptime,
      timestamp = (\<lambda>c. map_option (\<lambda>t. t - of_int off) (utc_timestamp c)),
      fromtimestamp = (\<lambda>q. utc_fromtimestamp (q + of_int off)),
      strftime = utc_strftime, str_num = utc_str_num\<rparr>"

text \<open>\<^verbatim>\<open>TZ=Asia/Tokyo\<close>: nine hours ahead of UTC, all year.\<close>

definition tokyo :: "civil pylib" where
  "tokyo = zone 32400"

text \<open>
  \<^verbatim>\<open>TZ=Europe/London\<close> around 26 March 2023. At 01:00:00 UTC of that day (timestamp
  1679792400) the clocks go from 01:00 to 02:00: before it local time is UTC, after it local
  time is one hour ahead, and the local times from 01:00:00 to 01:59:59 of that day do not
  exist. \<^verbatim>\<open>datetime.timestamp\<close> reads such a time with the offset in force before the change
  (a datetime from \<^verbatim>\<open>strptime\<close> has \<^verbatim>\<open>fold=0\<close>).
\<close>

definition london_timestamp :: "civil \<Rightarrow> rat option" where
  "london_timestamp c =
     map_option (\<lambda>t. if t < 1679796000 then t else t - 3600) (utc_timestamp c)"

definition london_fromtimestamp :: "rat \<Rightarrow> civil option" where
  "london_fromtimestamp q = utc_fromtimestamp (if q < 1679792400 then q else q + 3600)"

definition london :: "civil pylib" where
  "london = \<lparr>strptime = utc_strptime, timestamp = london_timestamp,
             fromtimestamp = london_fromtimestamp, strftime = utc_strftime,
             str_num = utc_str_num\<rparr>"

section \<open>Properties of the model\<close>

subsection \<open>Reading and writing columns\<close>

lemma getitem_setitem:
  "getitem (setitem t c x) c' = (if c' = c then Some x else getitem t c')"
proof (cases "c \<in> set (columns t)")
  case True
  then obtain y where y: "map_of t c = Some y"
    by (cases "map_of t c") (auto simp: columns_def map_of_eq_None_iff)
  have "map_of (map (\<lambda>(n, y). if n = c then (n, x) else (n, y)) t) c' =
        (if c' = c then map_option (\<lambda>_. x) (map_of t c) else map_of t c')"
    by (induction t) auto
  with True y show ?thesis
    by (simp add: getitem_def setitem_def)
next
  case False
  then have "map_of t c = None"
    by (simp add: columns_def map_of_eq_None_iff)
  with False show ?thesis
    by (auto simp: getitem_def setitem_def map_add_def split: option.splits)
qed

lemma columns_setitem:
  "c \<in> set (columns t) \<Longrightarrow> columns (setitem t c x) = columns t"
  by (induction t) (auto simp: setitem_def columns_def split: prod.splits)

lemma getitem_None_iff: "getitem t c = None \<longleftrightarrow> c \<notin> set (columns t)"
  by (simp add: getitem_def columns_def map_of_eq_None_iff)

lemma getitem_Some_columns: "getitem t c = Some col \<Longrightarrow> c \<in> set (columns t)"
  using getitem_None_iff [of t c] by auto

lemma getitem_filter:
  "getitem (filter (\<lambda>(n, x). n \<notin> S) t) c = (if c \<in> S then None else getitem t c)"
  by (induction t) (auto simp: getitem_def)

lemma columns_filter:
  "columns (filter (\<lambda>(n, x). n \<notin> S) t) = filter (\<lambda>n. n \<notin> S) (columns t)"
  by (induction t) (auto simp: columns_def)

subsection \<open>The loop of \<^verbatim>\<open>convert_datetime_columns\<close>\<close>

lemma convert_loop_frame:
  "convert_loop L F cs r h = (e, h') \<Longrightarrow>
     length h' = length h \<and> (\<forall>b. b \<noteq> r \<longrightarrow> h' ! b = h ! b)"
proof (induction cs arbitrary: h)
  case Nil
  then show ?case by simp
next
  case (Cons c cs)
  then show ?case
    by (fastforce split: option.splits)
qed

lemma convert_loop_columns:
  "r < length h \<Longrightarrow> convert_loop L F cs r h = (e, h') \<Longrightarrow>
     columns (h' ! r) = columns (h ! r)"
proof (induction cs arbitrary: h)
  case Nil
  then show ?case by simp
next
  case (Cons c cs)
  show ?case
  proof (cases "getitem (h ! r) c")
    case None
    with Cons.prems show ?thesis by simp
  next
    case (Some col)
    note col = this
    show ?thesis
    proof (cases "F c")
      case None
      with col Cons.prems show ?thesis by simp
    next
      case (Some f)
      let ?h1 = "h[r := setitem (h ! r) c (map (\<lambda>v. datetime_formatter L v f) col)]"
      from col Some Cons.prems have run: "convert_loop L F cs r ?h1 = (e, h')"
        by simp
      from Cons.prems have r: "r < length ?h1" by simp
      have "columns (h' ! r) = columns (?h1 ! r)"
        by (rule Cons.IH [OF r run])
      also have "\<dots> = columns (h ! r)"
        using Cons.prems(1) col by (simp add: columns_setitem getitem_Some_columns)
      finally show ?thesis .
    qed
  qed
qed

lemma convert_loop_ok:
  "r < length h \<Longrightarrow> set cs \<subseteq> set (columns (h ! r)) \<Longrightarrow> set cs \<subseteq> dom F \<Longrightarrow>
     fst (convert_loop L F cs r h) = None"
proof (induction cs arbitrary: h)
  case Nil
  then show ?case by simp
next
  case (Cons c cs)
  from Cons.prems obtain col where col: "getitem (h ! r) c = Some col"
    using getitem_None_iff [of "h ! r" c] by auto
  from Cons.prems obtain f where f: "F c = Some f" by auto
  let ?h1 = "h[r := setitem (h ! r) c (map (\<lambda>v. datetime_formatter L v f) col)]"
  have "columns (?h1 ! r) = columns (h ! r)"
    using Cons.prems(1) col by (simp add: columns_setitem getitem_Some_columns)
  with Cons.prems have "fst (convert_loop L F cs r ?h1) = None"
    by (intro Cons.IH) auto
  with col f show ?case by simp
qed

lemma convert_loop_error:
  "r < length h \<Longrightarrow> convert_loop L F cs r h = (Some e, h') \<Longrightarrow>
     \<exists>c \<in> set cs. e = KeyError c \<and> (c \<notin> set (columns (h ! r)) \<or> F c = None)"
proof (induction cs arbitrary: h)
  case Nil
  then show ?case by simp
next
  case (Cons c cs)
  show ?case
  proof (cases "getitem (h ! r) c")
    case None
    with Cons.prems show ?thesis by (simp add: getitem_None_iff)
  next
    case (Some col)
    note col = this
    show ?thesis
    proof (cases "F c")
      case None
      with col Cons.prems show ?thesis by simp
    next
      case (Some f)
      let ?h1 = "h[r := setitem (h ! r) c (map (\<lambda>v. datetime_formatter L v f) col)]"
      from col Some Cons.prems have run: "convert_loop L F cs r ?h1 = (Some e, h')"
        by simp
      from Cons.prems have r: "r < length ?h1" by simp
      have cols: "columns (?h1 ! r) = columns (h ! r)"
        using Cons.prems(1) col by (simp add: columns_setitem getitem_Some_columns)
      from Cons.IH [OF r run] cols show ?thesis by auto
    qed
  qed
qed

lemma convert_loop_other:
  "r < length h \<Longrightarrow> convert_loop L F cs r h = (e, h') \<Longrightarrow> c \<notin> set cs \<Longrightarrow>
     getitem (h' ! r) c = getitem (h ! r) c"
proof (induction cs arbitrary: h)
  case Nil
  then show ?case by simp
next
  case (Cons c0 cs)
  show ?case
  proof (cases "getitem (h ! r) c0")
    case None
    with Cons.prems show ?thesis by simp
  next
    case (Some col)
    note col = this
    show ?thesis
    proof (cases "F c0")
      case None
      with col Cons.prems show ?thesis by simp
    next
      case (Some f)
      let ?h1 = "h[r := setitem (h ! r) c0 (map (\<lambda>v. datetime_formatter L v f) col)]"
      from col Some Cons.prems have run: "convert_loop L F cs r ?h1 = (e, h')"
        by simp
      from Cons.prems have r: "r < length ?h1" and c: "c \<notin> set cs" "c \<noteq> c0" by auto
      have "getitem (h' ! r) c = getitem (?h1 ! r) c"
        by (rule Cons.IH [OF r run c(1)])
      also have "\<dots> = getitem (h ! r) c"
        using Cons.prems(1) c(2) by (simp add: getitem_setitem)
      finally show ?thesis .
    qed
  qed
qed

lemma convert_loop_cell:
  "r < length h \<Longrightarrow> distinct cs \<Longrightarrow> convert_loop L F cs r h = (None, h') \<Longrightarrow>
   c \<in> set cs \<Longrightarrow> F c = Some f \<Longrightarrow> getitem (h ! r) c = Some col \<Longrightarrow>
     getitem (h' ! r) c = Some (map (\<lambda>v. datetime_formatter L v f) col)"
proof (induction cs arbitrary: h)
  case Nil
  then show ?case by simp
next
  case (Cons c0 cs)
  from Cons.prems(3) obtain col0 where col0: "getitem (h ! r) c0 = Some col0"
    by (cases "getitem (h ! r) c0") auto
  from Cons.prems(3) col0 obtain f0 where f0: "F c0 = Some f0"
    by (cases "F c0") auto
  let ?h1 = "h[r := setitem (h ! r) c0 (map (\<lambda>v. datetime_formatter L v f0) col0)]"
  from col0 f0 Cons.prems have run: "convert_loop L F cs r ?h1 = (None, h')"
    by simp
  from Cons.prems have r: "r < length ?h1" and d: "distinct cs" "c0 \<notin> set cs" by auto
  show ?case
  proof (cases "c = c0")
    case True
    with Cons.prems col0 f0 have same: "col0 = col" "f0 = f" by auto
    have "getitem (h' ! r) c = getitem (?h1 ! r) c"
      using convert_loop_other [OF r run] d(2) True by simp
    also have "\<dots> = Some (map (\<lambda>v. datetime_formatter L v f) col)"
      using Cons.prems(1) True same by (simp add: getitem_setitem)
    finally show ?thesis .
  next
    case False
    with Cons.prems have c: "c \<in> set cs" by simp
    have "getitem (?h1 ! r) c = Some col"
      using Cons.prems(1,6) False by (simp add: getitem_setitem)
    then show ?thesis
      using Cons.IH [OF r d(1) run c Cons.prems(5)] by simp
  qed
qed

subsection \<open>The loop of \<^verbatim>\<open>convert_timestamp_to_datetime\<close>\<close>

lemma reverse_loop_frame:
  "reverse_loop L F cs r h = (e, h') \<Longrightarrow>
     length h' = length h \<and> (\<forall>b. b \<noteq> r \<longrightarrow> h' ! b = h ! b)"
proof (induction cs arbitrary: h)
  case Nil
  then show ?case by simp
next
  case (Cons c cs)
  then show ?case
    by (fastforce split: option.splits)
qed

lemma reverse_loop_columns:
  "r < length h \<Longrightarrow> reverse_loop L F cs r h = (e, h') \<Longrightarrow>
     columns (h' ! r) = columns (h ! r)"
proof (induction cs arbitrary: h)
  case Nil
  then show ?case by simp
next
  case (Cons c cs)
  show ?case
  proof (cases "getitem (h ! r) c")
    case None
    with Cons.prems Cons.IH show ?thesis by simp
  next
    case (Some col)
    note col = this
    show ?thesis
    proof (cases "F c")
      case None
      with col Cons.prems show ?thesis by simp
    next
      case (Some f)
      let ?h1 = "h[r := setitem (h ! r) c (map (\<lambda>v. column_timestamp_formatter L v f) col)]"
      from col Some Cons.prems have run: "reverse_loop L F cs r ?h1 = (e, h')"
        by simp
      from Cons.prems have r: "r < length ?h1" by simp
      have "columns (h' ! r) = columns (?h1 ! r)"
        by (rule Cons.IH [OF r run])
      also have "\<dots> = columns (h ! r)"
        using Cons.prems(1) col by (simp add: columns_setitem getitem_Some_columns)
      finally show ?thesis .
    qed
  qed
qed

lemma reverse_loop_ok:
  "set cs \<subseteq> dom F \<Longrightarrow> fst (reverse_loop L F cs r h) = None"
proof (induction cs arbitrary: h)
  case Nil
  then show ?case by simp
next
  case (Cons c cs)
  then obtain f where "F c = Some f" by auto
  with Cons show ?case
    by (cases "getitem (h ! r) c") auto
qed

lemma reverse_loop_other:
  "r < length h \<Longrightarrow> reverse_loop L F cs r h = (e, h') \<Longrightarrow> c \<notin> set cs \<Longrightarrow>
     getitem (h' ! r) c = getitem (h ! r) c"
proof (induction cs arbitrary: h)
  case Nil
  then show ?case by simp
next
  case (Cons c0 cs)
  show ?case
  proof (cases "getitem (h ! r) c0")
    case None
    with Cons.prems Cons.IH show ?thesis by simp
  next
    case (Some col)
    note col = this
    show ?thesis
    proof (cases "F c0")
      case None
      with col Cons.prems show ?thesis by simp
    next
      case (Some f)
      let ?h1 = "h[r := setitem (h ! r) c0 (map (\<lambda>v. column_timestamp_formatter L v f) col)]"
      from col Some Cons.prems have run: "reverse_loop L F cs r ?h1 = (e, h')"
        by simp
      from Cons.prems have r: "r < length ?h1" and c: "c \<notin> set cs" "c \<noteq> c0" by auto
      have "getitem (h' ! r) c = getitem (?h1 ! r) c"
        by (rule Cons.IH [OF r run c(1)])
      also have "\<dots> = getitem (h ! r) c"
        using Cons.prems(1) c(2) by (simp add: getitem_setitem)
      finally show ?thesis .
    qed
  qed
qed

lemma reverse_loop_cell:
  "r < length h \<Longrightarrow> distinct cs \<Longrightarrow> reverse_loop L F cs r h = (None, h') \<Longrightarrow>
   c \<in> set cs \<Longrightarrow> F c = Some f \<Longrightarrow> getitem (h ! r) c = Some col \<Longrightarrow>
     getitem (h' ! r) c = Some (map (\<lambda>v. column_timestamp_formatter L v f) col)"
proof (induction cs arbitrary: h)
  case Nil
  then show ?case by simp
next
  case (Cons c0 cs)
  from Cons.prems have d: "distinct cs" "c0 \<notin> set cs" by auto
  show ?case
  proof (cases "c = c0")
    case True
    let ?h1 = "h[r := setitem (h ! r) c0 (map (\<lambda>v. column_timestamp_formatter L v f) col)]"
    from True Cons.prems have run: "reverse_loop L F cs r ?h1 = (None, h')"
      by simp
    from Cons.prems have r: "r < length ?h1" by simp
    have "getitem (h' ! r) c = getitem (?h1 ! r) c"
      using reverse_loop_other [OF r run] d(2) True by simp
    also have "\<dots> = Some (map (\<lambda>v. column_timestamp_formatter L v f) col)"
      using Cons.prems(1) True by (simp add: getitem_setitem)
    finally show ?thesis .
  next
    case False
    with Cons.prems have c: "c \<in> set cs" by simp
    show ?thesis
    proof (cases "getitem (h ! r) c0")
      case None
      with Cons.prems have "reverse_loop L F cs r h = (None, h')" by simp
      from Cons.IH [OF Cons.prems(1) d(1) this c Cons.prems(5,6)] show ?thesis .
    next
      case (Some col0)
      with Cons.prems(3) obtain f0 where f0: "F c0 = Some f0"
        by (cases "F c0") auto
      let ?h1 = "h[r := setitem (h ! r) c0 (map (\<lambda>v. column_timestamp_formatter L v f0) col0)]"
      from Some f0 Cons.prems have run: "reverse_loop L F cs r ?h1 = (None, h')"
        by simp
      from Cons.prems have r: "r < length ?h1" by simp
      have "getitem (?h1 ! r) c = Some col"
        using Cons.prems(1,6) False by (simp add: getitem_setitem)
      then show ?thesis
        using Cons.IH [OF r d(1) run c Cons.prems(5)] by simp
    qed
  qed
qed

subsection \<open>Dead columns and \<^verbatim>\<open>fit\<close>\<close>

lemma remove_dead_result:
  "a < length h \<Longrightarrow> remove_dead ds a h = (a', h') \<Longrightarrow>
     a' < length h' \<and> length h \<le> length h' \<and> (\<forall>b < length h. h' ! b = h ! b)
     \<and> h' ! a' = filter (\<lambda>(n, x). n \<notin> set ds) (h ! a)"
proof (induction ds arbitrary: a h)
  case Nil
  then show ?case by simp
next
  case (Cons c ds)
  let ?t = "filter (\<lambda>(n, x). n \<notin> set [c]) (h ! a)"
  from Cons.prems have run: "remove_dead ds (length h) (h @ [?t]) = (a', h')"
    by (simp add: remove_columns_def)
  have "length h < length (h @ [?t])" by simp
  from Cons.IH [OF this run]
  have a': "a' < length h'" and len: "length (h @ [?t]) \<le> length h'"
    and old: "\<forall>b < length (h @ [?t]). h' ! b = (h @ [?t]) ! b"
    and new: "h' ! a' = filter (\<lambda>(n, x). n \<notin> set ds) ((h @ [?t]) ! length h)"
    by auto
  have "\<forall>b < length h. h' ! b = h ! b"
    using old by (simp add: nth_append)
  moreover have "h' ! a' = filter (\<lambda>(n, x). n \<notin> set (c # ds)) (h ! a)"
    using new by (auto intro: filter_cong)
  ultimately show ?case
    using a' len by simp
qed

lemma remove_dead_fresh:
  "remove_dead ds a h = (a', h') \<Longrightarrow> ds \<noteq> [] \<Longrightarrow> length h \<le> a'"
proof (induction ds arbitrary: a h)
  case Nil
  then show ?case by simp
next
  case (Cons c ds)
  let ?t = "filter (\<lambda>(n, x). n \<notin> set [c]) (h ! a)"
  from Cons.prems have run: "remove_dead ds (length h) (h @ [?t]) = (a', h')"
    by (simp add: remove_columns_def)
  show ?case
  proof (cases "ds = []")
    case True
    with run show ?thesis by simp
  next
    case False
    from Cons.IH [OF run False] show ?thesis by simp
  qed
qed

lemma fit_loop_eq:
  "fit_loop F cs us ds =
     (us @ filter (\<lambda>c. F c \<noteq> None) cs, ds @ filter (\<lambda>c. F c = None) cs)"
  by (induction cs arbitrary: us ds) (auto split: option.splits)

lemma fit_datetime_columns:
  "datetime_columns (fst (fit m)) =
     filter (\<lambda>c. meta_datetime_format m c \<noteq> None) (meta_datetime_columns m)"
  by (simp add: fit_def fit_loop_eq)

lemma fit_dead_columns:
  "dead_columns (fst (fit m)) =
     filter (\<lambda>c. meta_datetime_format m c = None) (meta_datetime_columns m)"
  by (simp add: fit_def fit_loop_eq)

lemma fit_datetime_formats:
  "datetime_formats (fst (fit m)) = meta_datetime_format m"
  by (simp add: fit_def fit_loop_eq)

lemma fit_usable_has_format:
  "set (datetime_columns (fst (fit m))) \<subseteq> dom (datetime_formats (fst (fit m)))"
  by (auto simp: fit_datetime_columns fit_datetime_formats)

lemma fit_dead_not_usable:
  "set (datetime_columns (fst (fit m))) \<inter> set (dead_columns (fst (fit m))) = {}"
  by (auto simp: fit_datetime_columns fit_dead_columns)

subsection \<open>What \<^verbatim>\<open>convert\<close> and \<^verbatim>\<open>reverse_convert\<close> return\<close>

lemma convert_nonempty:
  assumes "datetime_columns self \<noteq> []" and "a < length h"
    and "convert L self a h = (res, h')"
  shows "\<exists>a1 h1 e.
     a1 < length h1 \<and> length h \<le> length h1 \<and> (\<forall>b < length h. h1 ! b = h ! b)
     \<and> h1 ! a1 = filter (\<lambda>(n, x). n \<notin> set (dead_columns self)) (h ! a)
     \<and> convert_loop L (datetime_formats self) (datetime_columns self) (length h1)
          (h1 @ [h1 ! a1]) = (e, h')
     \<and> res = (case e of Some x \<Rightarrow> Inl x | None \<Rightarrow> Inr (length h1))"
proof -
  obtain a1 h1 where rd: "remove_dead (dead_columns self) a h = (a1, h1)"
    by (cases "remove_dead (dead_columns self) a h")
  obtain e h2 where lp: "convert_loop L (datetime_formats self) (datetime_columns self)
      (length h1) (h1 @ [h1 ! a1]) = (e, h2)"
    by (cases "convert_loop L (datetime_formats self) (datetime_columns self)
      (length h1) (h1 @ [h1 ! a1])")
  from assms(1,3) rd lp have "h' = h2" and "res = (case e of Some x \<Rightarrow> Inl x | None \<Rightarrow> Inr (length h1))"
    by (auto simp: convert_def convert_datetime_columns_def df_copy_def split: option.splits)
  with remove_dead_result [OF assms(2) rd] lp show ?thesis
    by blast
qed

lemma convert_frame:
  assumes "a < length h" and "convert L self a h = (res, h')"
  shows "length h \<le> length h' \<and> (\<forall>b < length h. h' ! b = h ! b)"
proof (cases "datetime_columns self = []")
  case True
  with assms show ?thesis by (simp add: convert_def)
next
  case False
  from convert_nonempty [OF False assms] obtain a1 h1 e where
    len: "length h \<le> length h1" and old: "\<forall>b < length h. h1 ! b = h ! b"
    and lp: "convert_loop L (datetime_formats self) (datetime_columns self) (length h1)
          (h1 @ [h1 ! a1]) = (e, h')"
    by blast
  from convert_loop_frame [OF lp]
  have l': "length h' = Suc (length h1)"
    and o': "\<forall>b. b \<noteq> length h1 \<longrightarrow> h' ! b = (h1 @ [h1 ! a1]) ! b"
    by simp_all
  have "\<forall>b < length h. h' ! b = h ! b"
  proof (intro allI impI)
    fix b assume b: "b < length h"
    with len have "b \<noteq> length h1" "b < length h1" by simp_all
    with o' have "h' ! b = h1 ! b" by (simp add: nth_append)
    with old b show "h' ! b = h ! b" by simp
  qed
  with len l' show ?thesis by simp
qed

lemma convert_fresh:
  assumes "datetime_columns self \<noteq> []" and "a < length h"
    and "convert L self a h = (Inr r, h')"
  shows "length h \<le> r \<and> r < length h'"
proof -
  from convert_nonempty [OF assms] obtain a1 h1 e where
    len: "length h \<le> length h1"
    and lp: "convert_loop L (datetime_formats self) (datetime_columns self) (length h1)
          (h1 @ [h1 ! a1]) = (e, h')"
    and res: "Inr r = (case e of Some x \<Rightarrow> Inl x | None \<Rightarrow> Inr (length h1))"
    by blast
  from res have "r = length h1" by (cases e) auto
  with len convert_loop_frame [OF lp] show ?thesis by simp
qed

lemma convert_columns:
  assumes "datetime_columns self \<noteq> []" and "a < length h"
    and "convert L self a h = (Inr r, h')"
  shows "columns (h' ! r) = filter (\<lambda>n. n \<notin> set (dead_columns self)) (columns (h ! a))"
proof -
  from convert_nonempty [OF assms] obtain a1 h1 e where
    t: "h1 ! a1 = filter (\<lambda>(n, x). n \<notin> set (dead_columns self)) (h ! a)"
    and lp: "convert_loop L (datetime_formats self) (datetime_columns self) (length h1)
          (h1 @ [h1 ! a1]) = (e, h')"
    and res: "Inr r = (case e of Some x \<Rightarrow> Inl x | None \<Rightarrow> Inr (length h1))"
    by blast
  from res have r: "r = length h1" by (cases e) auto
  have "columns (h' ! length h1) = columns ((h1 @ [h1 ! a1]) ! length h1)"
    by (rule convert_loop_columns [OF _ lp]) simp
  with r t show ?thesis by (simp add: columns_filter)
qed

lemma convert_other:
  assumes "datetime_columns self \<noteq> []" and "a < length h"
    and "convert L self a h = (Inr r, h')" and "c \<notin> set (datetime_columns self)"
  shows "getitem (h' ! r) c = (if c \<in> set (dead_columns self) then None else getitem (h ! a) c)"
proof -
  from convert_nonempty [OF assms(1-3)] obtain a1 h1 e where
    t: "h1 ! a1 = filter (\<lambda>(n, x). n \<notin> set (dead_columns self)) (h ! a)"
    and lp: "convert_loop L (datetime_formats self) (datetime_columns self) (length h1)
          (h1 @ [h1 ! a1]) = (e, h')"
    and res: "Inr r = (case e of Some x \<Rightarrow> Inl x | None \<Rightarrow> Inr (length h1))"
    by blast
  from res have r: "r = length h1" by (cases e) auto
  have "getitem (h' ! length h1) c = getitem ((h1 @ [h1 ! a1]) ! length h1) c"
    by (rule convert_loop_other [OF _ lp assms(4)]) simp
  with r t show ?thesis by (simp add: getitem_filter)
qed

lemma convert_cells:
  assumes "a < length h" and "distinct (datetime_columns self)"
    and "convert L self a h = (Inr r, h')" and "c \<in> set (datetime_columns self)"
    and "c \<notin> set (dead_columns self)"
    and "datetime_formats self c = Some f" and "getitem (h ! a) c = Some col"
  shows "getitem (h' ! r) c = Some (map (\<lambda>v. datetime_formatter L v f) col)"
proof -
  from assms(4) have ne: "datetime_columns self \<noteq> []" by auto
  from convert_nonempty [OF ne assms(1,3)] obtain a1 h1 e where
    t: "h1 ! a1 = filter (\<lambda>(n, x). n \<notin> set (dead_columns self)) (h ! a)"
    and lp: "convert_loop L (datetime_formats self) (datetime_columns self) (length h1)
          (h1 @ [h1 ! a1]) = (e, h')"
    and res: "Inr r = (case e of Some x \<Rightarrow> Inl x | None \<Rightarrow> Inr (length h1))"
    by blast
  from res have r: "r = length h1" and e: "e = None" by (cases e; simp)+
  have "getitem ((h1 @ [h1 ! a1]) ! length h1) c = Some col"
    using t assms(5,7) by (simp add: getitem_filter)
  from convert_loop_cell [OF _ assms(2) lp [unfolded e] assms(4,6) this] r
  show ?thesis by simp
qed

lemma convert_returns:
  assumes "a < length h" and "set (datetime_columns self) \<subseteq> dom (datetime_formats self)"
    and "set (datetime_columns self) \<inter> set (dead_columns self) = {}"
    and "set (datetime_columns self) \<subseteq> set (columns (h ! a))"
  shows "\<exists>r h'. convert L self a h = (Inr r, h')"
proof (cases "datetime_columns self = []")
  case True
  then show ?thesis by (simp add: convert_def)
next
  case False
  obtain res h' where c: "convert L self a h = (res, h')"
    by (cases "convert L self a h")
  from convert_nonempty [OF False assms(1) c] obtain a1 h1 e where
    t: "h1 ! a1 = filter (\<lambda>(n, x). n \<notin> set (dead_columns self)) (h ! a)"
    and lp: "convert_loop L (datetime_formats self) (datetime_columns self) (length h1)
          (h1 @ [h1 ! a1]) = (e, h')"
    and res: "res = (case e of Some x \<Rightarrow> Inl x | None \<Rightarrow> Inr (length h1))"
    by blast
  have "set (datetime_columns self) \<subseteq> set (columns ((h1 @ [h1 ! a1]) ! length h1))"
    using t assms(3,4) by (auto simp: columns_filter)
  then have "fst (convert_loop L (datetime_formats self) (datetime_columns self) (length h1)
          (h1 @ [h1 ! a1])) = None"
    by (intro convert_loop_ok assms(2)) simp_all
  with lp res c show ?thesis by simp
qed

lemma convert_raises:
  assumes "a < length h" and "convert L self a h = (Inl e, h')"
  shows "\<exists>c \<in> set (datetime_columns self). e = KeyError c \<and>
           (c \<notin> set (columns (h ! a)) \<or> c \<in> set (dead_columns self)
            \<or> datetime_formats self c = None)"
proof -
  from assms(2) have ne: "datetime_columns self \<noteq> []"
    by (auto simp: convert_def split: if_splits)
  from convert_nonempty [OF ne assms] obtain a1 h1 e1 where
    t: "h1 ! a1 = filter (\<lambda>(n, x). n \<notin> set (dead_columns self)) (h ! a)"
    and lp: "convert_loop L (datetime_formats self) (datetime_columns self) (length h1)
          (h1 @ [h1 ! a1]) = (e1, h')"
    and res: "Inl e = (case e1 of Some x \<Rightarrow> Inl x | None \<Rightarrow> Inr (length h1))"
    by blast
  from res have "e1 = Some e" by (cases e1) auto
  with lp have "convert_loop L (datetime_formats self) (datetime_columns self) (length h1)
          (h1 @ [h1 ! a1]) = (Some e, h')" by simp
  from convert_loop_error [OF _ this] t show ?thesis
    by (auto simp: columns_filter)
qed

lemma reverse_nonempty:
  assumes "datetime_columns self \<noteq> []" and "reverse_convert L self a h = (res, h')"
  shows "\<exists>e. reverse_loop L (datetime_formats self) (datetime_columns self) (length h)
            (h @ [h ! a]) = (e, h')
          \<and> res = (case e of Some x \<Rightarrow> Inl x | None \<Rightarrow> Inr (length h))"
proof -
  obtain e h2 where lp: "reverse_loop L (datetime_formats self) (datetime_columns self)
      (length h) (h @ [h ! a]) = (e, h2)"
    by (cases "reverse_loop L (datetime_formats self) (datetime_columns self)
      (length h) (h @ [h ! a])")
  with assms show ?thesis
    by (auto simp: reverse_convert_def convert_timestamp_to_datetime_def df_copy_def
        split: option.splits)
qed

lemma reverse_frame:
  assumes "reverse_convert L self a h = (res, h')"
  shows "length h \<le> length h' \<and> (\<forall>b < length h. h' ! b = h ! b)"
proof (cases "datetime_columns self = []")
  case True
  with assms show ?thesis by (simp add: reverse_convert_def)
next
  case False
  from reverse_nonempty [OF False assms] obtain e where
    lp: "reverse_loop L (datetime_formats self) (datetime_columns self) (length h)
            (h @ [h ! a]) = (e, h')"
    by blast
  from reverse_loop_frame [OF lp] show ?thesis
    by (simp add: nth_append)
qed

lemma reverse_returns:
  assumes "set (datetime_columns self) \<subseteq> dom (datetime_formats self)"
  shows "\<exists>r h'. reverse_convert L self a h = (Inr r, h')"
proof (cases "datetime_columns self = []")
  case True
  then show ?thesis by (simp add: reverse_convert_def)
next
  case False
  obtain res h' where c: "reverse_convert L self a h = (res, h')"
    by (cases "reverse_convert L self a h")
  from reverse_nonempty [OF False c] obtain e where
    lp: "reverse_loop L (datetime_formats self) (datetime_columns self) (length h)
            (h @ [h ! a]) = (e, h')"
    and res: "res = (case e of Some x \<Rightarrow> Inl x | None \<Rightarrow> Inr (length h))"
    by blast
  from reverse_loop_ok [OF assms, of L "length h" "h @ [h ! a]"] lp have "e = None"
    by simp
  with res c show ?thesis by simp
qed

lemma reverse_columns:
  assumes "reverse_convert L self a h = (Inr r, h')" and "a < length h"
  shows "columns (h' ! r) = columns (h ! a)"
proof (cases "datetime_columns self = []")
  case True
  with assms show ?thesis by (simp add: reverse_convert_def)
next
  case False
  from reverse_nonempty [OF False assms(1)] obtain e where
    lp: "reverse_loop L (datetime_formats self) (datetime_columns self) (length h)
            (h @ [h ! a]) = (e, h')"
    and res: "Inr r = (case e of Some x \<Rightarrow> Inl x | None \<Rightarrow> Inr (length h))"
    by blast
  from res have r: "r = length h" by (cases e) auto
  have "columns (h' ! length h) = columns ((h @ [h ! a]) ! length h)"
    by (rule reverse_loop_columns [OF _ lp]) simp
  with r show ?thesis by simp
qed

lemma reverse_cells:
  assumes "distinct (datetime_columns self)"
    and "reverse_convert L self a h = (Inr r, h')" and "c \<in> set (datetime_columns self)"
    and "datetime_formats self c = Some f" and "getitem (h ! a) c = Some col"
  shows "getitem (h' ! r) c = Some (map (\<lambda>v. column_timestamp_formatter L v f) col)"
proof -
  from assms(3) have ne: "datetime_columns self \<noteq> []" by auto
  from reverse_nonempty [OF ne assms(2)] obtain e where
    lp: "reverse_loop L (datetime_formats self) (datetime_columns self) (length h)
            (h @ [h ! a]) = (e, h')"
    and res: "Inr r = (case e of Some x \<Rightarrow> Inl x | None \<Rightarrow> Inr (length h))"
    by blast
  from res have r: "r = length h" and e: "e = None" by (cases e; simp)+
  have "getitem ((h @ [h ! a]) ! length h) c = Some col"
    using assms(5) by simp
  from reverse_loop_cell [OF _ assms(1) lp [unfolded e] assms(3,4) this] r
  show ?thesis by simp
qed

subsection \<open>The cells that \<^verbatim>\<open>reverse_convert\<close> writes\<close>

lemma reverse_loop_invariant:
  "r < length h \<Longrightarrow> reverse_loop L F cs r h = (None, h') \<Longrightarrow> F c = Some f \<Longrightarrow>
   \<forall>v. P (column_timestamp_formatter L v f) \<Longrightarrow>
   c \<in> set cs \<or> (\<forall>col. getitem (h ! r) c = Some col \<longrightarrow> (\<forall>x \<in> set col. P x)) \<Longrightarrow>
   getitem (h' ! r) c = Some col' \<Longrightarrow> \<forall>x \<in> set col'. P x"
proof (induction cs arbitrary: h)
  case Nil
  then show ?case by simp
next
  case (Cons c0 cs)
  show ?case
  proof (cases "getitem (h ! r) c0")
    case None
    with Cons.prems have run: "reverse_loop L F cs r h = (None, h')" by simp
    show ?thesis
    proof (cases "c = c0")
      case True
      from reverse_loop_columns [OF Cons.prems(1) run] None True
      have "getitem (h' ! r) c = None"
        by (simp add: getitem_None_iff)
      with Cons.prems(6) show ?thesis by simp
    next
      case False
      with Cons.prems(5) have "c \<in> set cs \<or>
          (\<forall>col. getitem (h ! r) c = Some col \<longrightarrow> (\<forall>x \<in> set col. P x))"
        by simp
      from Cons.IH [OF Cons.prems(1) run Cons.prems(3,4) this Cons.prems(6)]
      show ?thesis .
    qed
  next
    case (Some col0)
    with Cons.prems(2) obtain f0 where f0: "F c0 = Some f0"
      by (cases "F c0") auto
    let ?h1 = "h[r := setitem (h ! r) c0 (map (\<lambda>v. column_timestamp_formatter L v f0) col0)]"
    from Some f0 Cons.prems have run: "reverse_loop L F cs r ?h1 = (None, h')"
      by simp
    from Cons.prems have r: "r < length ?h1" by simp
    have "c \<in> set cs \<or> (\<forall>col. getitem (?h1 ! r) c = Some col \<longrightarrow> (\<forall>x \<in> set col. P x))"
    proof (cases "c = c0")
      case True
      with f0 Cons.prems(3) have "f0 = f" by simp
      with True Cons.prems(1,4) show ?thesis
        by (auto simp: getitem_setitem)
    next
      case False
      with Cons.prems(1,5) show ?thesis
        by (auto simp: getitem_setitem)
    qed
    from Cons.IH [OF r run Cons.prems(3,4) this Cons.prems(6)]
    show ?thesis .
  qed
qed

lemma column_timestamp_formatter_num:
  "column_timestamp_formatter L (Num (Fin q)) f =
     (if 0 \<le> q \<and> q \<le> 253402300799
      then Text (case Option.bind (fromtimestamp L q) (\<lambda>d. strftime L d f) of
                   None \<Rightarrow> sentinel | Some s \<Rightarrow> s)
      else Text sentinel)"
  "column_timestamp_formatter L (Num (PyInt k)) f =
     (if 0 \<le> k \<and> k \<le> 253402300799
      then Text (case Option.bind (fromtimestamp L (of_int k)) (\<lambda>d. strftime L d f) of
                   None \<Rightarrow> sentinel | Some s \<Rightarrow> s)
      else Text sentinel)"
  "column_timestamp_formatter L (Num PosInf) f = Text sentinel"
  "column_timestamp_formatter L (Num NegInf) f = Text sentinel"
  by (simp_all add: column_timestamp_formatter_def max_timestamp_def)

lemma column_timestamp_formatter_cases:
  "column_timestamp_formatter L v f = Text sentinel \<or>
   (\<exists>q d s. fromtimestamp L q = Some d \<and> strftime L d f = Some s
      \<and> column_timestamp_formatter L v f = Text s)"
proof (cases v)
  case (Num x)
  have *: "Text (case Option.bind (fromtimestamp L q) (\<lambda>d. strftime L d f) of
                   None \<Rightarrow> sentinel | Some s \<Rightarrow> s) = Text sentinel \<or>
      (\<exists>d s. fromtimestamp L q = Some d \<and> strftime L d f = Some s
        \<and> Text (case Option.bind (fromtimestamp L q) (\<lambda>d. strftime L d f) of
                   None \<Rightarrow> sentinel | Some s \<Rightarrow> s) = (Text s :: 'a cell))" for q
    by (cases "fromtimestamp L q") (auto split: option.splits)
  show ?thesis
  proof (cases x)
    case (Fin q)
    with Num * [of q] show ?thesis
      by (auto simp: column_timestamp_formatter_num)
  next
    case (PyInt k)
    with Num * [of "of_int k"] show ?thesis
      by (auto simp: column_timestamp_formatter_num)
  next
    case PosInf
    with Num show ?thesis by (simp add: column_timestamp_formatter_num)
  next
    case NegInf
    with Num show ?thesis by (simp add: column_timestamp_formatter_num)
  qed
qed (simp_all add: column_timestamp_formatter_def)

section \<open>The claims\<close>

subsection \<open>The per-cell rules of \<^verbatim>\<open>convert\<close>\<close>

lemma datetime_formatter_missing: "datetime_formatter L Missing f = Missing"
  by (simp add: datetime_formatter_def)

lemma datetime_formatter_native:
  "datetime_formatter L (Native d) f =
     (case timestamp L d of None \<Rightarrow> Missing | Some t \<Rightarrow> Num (Fin t))"
  by (simp add: datetime_formatter_def split: option.splits)

lemma datetime_formatter_parse_failure:
  "strptime L s f = None \<Longrightarrow> datetime_formatter L (Text s) f = Missing"
  by (simp add: datetime_formatter_def)

lemma datetime_formatter_parsed:
  "strptime L s f = Some d \<Longrightarrow> timestamp L d = Some t \<Longrightarrow>
     datetime_formatter L (Text s) f = Num (Fin t)"
  by (simp add: datetime_formatter_def)

text \<open>
  Claim C1, as the code has it. Let \<open>c\<close> be a datetime column with format \<open>f\<close>, and let the
  cell \<open>i\<close> of that column in the caller's table be a string \<open>v\<close> (or a number that
  \<^verbatim>\<open>str\<close> renders to \<open>v\<close>) that the library parses under \<open>f\<close> to the datetime \<open>d\<close> with
  timestamp \<open>t\<close>, where \<open>0 \<le> t \<le> 253402300799\<close>. If \<^verbatim>\<open>convert\<close> returns a table, then
  \<^verbatim>\<open>reverse_convert\<close> of that table returns a table whose cell \<open>i\<close> of column \<open>c\<close> is the
  rendering of \<open>t\<close> under \<open>f\<close>: the string \<open>s\<close> that \<^verbatim>\<open>strftime\<close> gives for the datetime
  \<open>d'\<close> that \<^verbatim>\<open>datetime.fromtimestamp\<close> gives for \<open>t\<close>. The cell is \<open>v\<close> again whenever
  \<^verbatim>\<open>fromtimestamp\<close> gives back \<open>d\<close> and \<^verbatim>\<open>strftime\<close> renders \<open>d\<close> as \<open>v\<close>. The labels of the
  table are distinct, and the datetime columns of the metadata are a set: the loop of
  \<^verbatim>\<open>fit\<close> meets each once.
\<close>

theorem round_trip:
  assumes "distinct (meta_datetime_columns m)" and "distinct (columns (h ! a))"
    and "a < length h"
    and "convert L (fst (fit m)) a h = (Inr r1, h1)"
    and "c \<in> set (meta_datetime_columns m)" and "meta_datetime_format m c = Some f"
    and "getitem (h ! a) c = Some col" and "i < length col"
    and "col ! i = Text v \<or> col ! i = Num n \<and> str_num L n = v"
    and "strptime L v f = Some d" and "timestamp L d = Some t"
    and "0 \<le> t" and "t \<le> 253402300799"
    and "fromtimestamp L t = Some d'" and "strftime L d' f = Some s"
  shows "\<exists>r2 h2 col2. reverse_convert L (fst (fit m)) r1 h1 = (Inr r2, h2)
     \<and> getitem (h2 ! r2) c = Some col2 \<and> length col2 = length col \<and> col2 ! i = Text s
     \<and> (d' = d \<longrightarrow> strftime L d f = Some v \<longrightarrow> col2 ! i = Text v)"
proof -
  let ?self = "fst (fit m)"
  have us: "c \<in> set (datetime_columns ?self)" and nd: "c \<notin> set (dead_columns ?self)"
    and F: "datetime_formats ?self c = Some f" and dist: "distinct (datetime_columns ?self)"
    using assms(1,5,6) by (simp_all add: fit_datetime_columns fit_dead_columns fit_datetime_formats)
  let ?col1 = "map (\<lambda>v. datetime_formatter L v f) col"
  have c1: "getitem (h1 ! r1) c = Some ?col1"
    by (rule convert_cells [OF assms(3) dist assms(4) us nd F assms(7)])
  from reverse_returns [where self = "fst (fit m)" and L = L and a = r1 and h = h1, OF fit_usable_has_format]
  obtain r2 h2 where run: "reverse_convert L ?self r1 h1 = (Inr r2, h2)"
    by blast
  let ?col2 = "map (\<lambda>v. column_timestamp_formatter L v f) ?col1"
  have c2: "getitem (h2 ! r2) c = Some ?col2"
    by (rule reverse_cells [OF dist run us F c1])
  have "datetime_formatter L (col ! i) f = Num (Fin t)"
    using assms(9-11) by (auto simp: datetime_formatter_def)
  moreover have "column_timestamp_formatter L (Num (Fin t)) f = Text s"
    using assms(12-15) by (simp add: column_timestamp_formatter_def max_timestamp_def)
  ultimately have cell: "?col2 ! i = Text s"
    using assms(8) by simp
  have "?col2 ! i = Text v" if "d' = d" and "strftime L d f = Some v"
    using that cell assms(15) by simp
  with run c2 cell show ?thesis by simp
qed

text \<open>
  The round trip of \<^verbatim>\<open>'2023-01-01'\<close> under \<^verbatim>\<open>'%Y-%m-%d'\<close> in UTC, through the timestamp
  1672531200, in the column \<^verbatim>\<open>["2023-01-01", "invalid", "1992-05-15"]\<close>: the string comes
  back as it was.
\<close>

theorem round_trip_witness:
  "\<exists>r2 h2 col2.
     reverse_convert utc
       (fst (fit \<lparr>meta_datetime_format = [''d'' \<mapsto> ''%Y-%m-%d''], meta_datetime_columns = [''d''],
                  meta_discrete_columns = {''d''}\<rparr>))
       1 [[(''d'', [Text ''2023-01-01'', Text ''invalid'', Text ''1992-05-15''])],
          [(''d'', [Num (Fin 1672531200), Missing, Num (Fin 705888000)])]] = (Inr r2, h2)
     \<and> getitem (h2 ! r2) ''d'' = Some col2
     \<and> length col2
         = length [Text ''2023-01-01'', Text ''invalid'', Text ''1992-05-15'' :: civil cell]
     \<and> col2 ! 0 = Text ''2023-01-01''"
proof -
  let ?m = "\<lparr>meta_datetime_format = [''d'' \<mapsto> ''%Y-%m-%d''], meta_datetime_columns = [''d''],
             meta_discrete_columns = {''d''}\<rparr>"
  let ?col = "[Text ''2023-01-01'', Text ''invalid'', Text ''1992-05-15'' :: civil cell]"
  let ?h = "[[(''d'', ?col)]]"
  let ?h1 = "[[(''d'', ?col)], [(''d'', [Num (Fin 1672531200), Missing, Num (Fin 705888000)])]]"
  have 1: "distinct (meta_datetime_columns ?m)" and 2: "distinct (columns (?h ! 0))"
    and 3: "0 < length ?h" and 5: "''d'' \<in> set (meta_datetime_columns ?m)"
    and 6: "meta_datetime_format ?m ''d'' = Some ''%Y-%m-%d''"
    and 7: "getitem (?h ! 0) ''d'' = Some ?col" and 8: "0 < length ?col"
    and 9: "?col ! 0 = Text ''2023-01-01'' \<or> ?col ! 0 = Num (Fin 0) \<and> str_num utc (Fin 0) = ''2023-01-01''"
    and 12: "(0 :: rat) \<le> 1672531200" and 13: "(1672531200 :: rat) \<le> 253402300799"
    by (simp_all add: columns_def getitem_def)
  have 4: "convert utc (fst (fit ?m)) 0 ?h = (Inr 1, ?h1)"
    by code_simp
  have 10: "strptime utc ''2023-01-01'' ''%Y-%m-%d'' = Some (Civil 2023 1 1 0 0 0)"
    by code_simp
  have 11: "timestamp utc (Civil 2023 1 1 0 0 0) = Some 1672531200"
    by code_simp
  have 14: "fromtimestamp utc 1672531200 = Some (Civil 2023 1 1 0 0 0)"
    by code_simp
  have 15: "strftime utc (Civil 2023 1 1 0 0 0) ''%Y-%m-%d'' = Some ''2023-01-01''"
    by code_simp
  from round_trip [OF 1 2 3 4 5 6 7 8 9 10 11 12 13 14 15]
  show ?thesis by blast
qed

text \<open>The whole column after the round trip, as the scenario of the specification has it.\<close>

lemma round_trip_scenario:
  "reverse_convert utc
     (fst (fit \<lparr>meta_datetime_format = [''d'' \<mapsto> ''%Y-%m-%d''], meta_datetime_columns = [''d''],
                meta_discrete_columns = {''d''}\<rparr>))
     1 [[(''d'', [Text ''2023-01-01'', Text ''invalid'', Text ''1992-05-15''])],
        [(''d'', [Num (Fin 1672531200), Missing, Num (Fin 705888000)])]]
   = (Inr 2,
      [[(''d'', [Text ''2023-01-01'', Text ''invalid'', Text ''1992-05-15''])],
       [(''d'', [Num (Fin 1672531200), Missing, Num (Fin 705888000)])],
       [(''d'', [Text ''2023-01-01'', Text ''No Datetime'', Text ''1992-05-15''])]])"
  by code_simp

text \<open>
  Claim C1 as stated fails where it says that the rendering equals \<open>v\<close> up to the precision
  of the format. With \<^verbatim>\<open>TZ=Europe/London\<close> the string \<^verbatim>\<open>'2023-03-26 01:30:00'\<close> parses under
  \<^verbatim>\<open>'%Y-%m-%d %H:%M:%S'\<close> to the timestamp 1679794200, inside the range; that local time is
  skipped by the clock change, and the round trip gives \<^verbatim>\<open>'2023-03-26 02:30:00'\<close>, an hour
  later.
\<close>

theorem round_trip_clock_change_counterexample:
  "strptime london ''2023-03-26 01:30:00'' ''%Y-%m-%d %H:%M:%S'' = Some (Civil 2023 3 26 1 30 0)
   \<and> timestamp london (Civil 2023 3 26 1 30 0) = Some 1679794200
   \<and> convert london
       (fst (fit \<lparr>meta_datetime_format = [''d'' \<mapsto> ''%Y-%m-%d %H:%M:%S''],
                  meta_datetime_columns = [''d''], meta_discrete_columns = {}\<rparr>))
       0 [[(''d'', [Text ''2023-03-26 01:30:00''])]]
     = (Inr 1, [[(''d'', [Text ''2023-03-26 01:30:00''])], [(''d'', [Num (Fin 1679794200)])]])
   \<and> reverse_convert london
       (fst (fit \<lparr>meta_datetime_format = [''d'' \<mapsto> ''%Y-%m-%d %H:%M:%S''],
                  meta_datetime_columns = [''d''], meta_discrete_columns = {}\<rparr>))
       1 [[(''d'', [Text ''2023-03-26 01:30:00''])], [(''d'', [Num (Fin 1679794200)])]]
     = (Inr 2, [[(''d'', [Text ''2023-03-26 01:30:00''])], [(''d'', [Num (Fin 1679794200)])],
                [(''d'', [Text ''2023-03-26 02:30:00''])]])"
  by code_simp

text \<open>
  Claim C2. For every table and every fitted formatter, \<^verbatim>\<open>reverse_convert\<close> returns a
  table and raises nothing, and every cell of every datetime column of that table is a string:
  the sentinel \<^verbatim>\<open>"No Datetime"\<close>, or what the library's \<^verbatim>\<open>strftime\<close> renders from a
  timestamp with the column's format.
\<close>

theorem reverse_convert_never_raises:
  assumes "a < length h"
  shows "\<exists>r h'. reverse_convert L (fst (fit m)) a h = (Inr r, h') \<and>
     (\<forall>c \<in> set (datetime_columns (fst (fit m))). \<forall>f col'.
        datetime_formats (fst (fit m)) c = Some f \<longrightarrow> getitem (h' ! r) c = Some col' \<longrightarrow>
        (\<forall>x \<in> set col'. x = Text sentinel \<or>
           (\<exists>q d s. fromtimestamp L q = Some d \<and> strftime L d f = Some s \<and> x = Text s)))"
proof -
  let ?self = "fst (fit m)"
  from reverse_returns [where self = "fst (fit m)" and L = L and a = a and h = h, OF fit_usable_has_format]
  obtain r h' where run: "reverse_convert L ?self a h = (Inr r, h')"
    by blast
  have "\<forall>x \<in> set col'. x = Text sentinel \<or>
           (\<exists>q d s. fromtimestamp L q = Some d \<and> strftime L d f = Some s \<and> x = Text s)"
    if c: "c \<in> set (datetime_columns ?self)" and f: "datetime_formats ?self c = Some f"
      and col': "getitem (h' ! r) c = Some col'" for c f col'
  proof -
    from c have ne: "datetime_columns ?self \<noteq> []" by auto
    from reverse_nonempty [OF ne run] obtain e where
      lp: "reverse_loop L (datetime_formats ?self) (datetime_columns ?self) (length h)
            (h @ [h ! a]) = (e, h')"
      and res: "Inr r = (case e of Some x \<Rightarrow> Inl x | None \<Rightarrow> Inr (length h))"
      by blast
    from res have r: "r = length h" and e: "e = None" by (cases e; simp)+
    have P: "\<forall>v. column_timestamp_formatter L v f = Text sentinel \<or>
           (\<exists>q d s. fromtimestamp L q = Some d \<and> strftime L d f = Some s
              \<and> column_timestamp_formatter L v f = Text s)"
      using column_timestamp_formatter_cases [of L _ f] by blast
    show ?thesis
      by (rule reverse_loop_invariant [where P = "\<lambda>x. x = Text sentinel \<or>
           (\<exists>q d s. fromtimestamp L q = Some d \<and> strftime L d f = Some s \<and> x = Text s)",
           OF _ lp [unfolded e] f P _ col' [unfolded r]]) (use c in simp_all)
  qed
  with run show ?thesis by blast
qed

text \<open>
  An instance: a column with a timestamp, a missing value, a negative number and a string.
\<close>

theorem reverse_convert_never_raises_witness:
  "\<exists>r h'.
     reverse_convert utc
       (fst (fit \<lparr>meta_datetime_format = [''d'' \<mapsto> ''%Y-%m-%d''], meta_datetime_columns = [''d''],
                  meta_discrete_columns = {}\<rparr>))
       0 [[(''d'', [Num (Fin 1672531200), Missing, Num (Fin (- 1)), Text ''x''])]] = (Inr r, h')
     \<and> (\<forall>c \<in> set (datetime_columns
            (fst (fit \<lparr>meta_datetime_format = [''d'' \<mapsto> ''%Y-%m-%d''],
                       meta_datetime_columns = [''d''], meta_discrete_columns = {}\<rparr>))).
          \<forall>f col'.
            datetime_formats
              (fst (fit \<lparr>meta_datetime_format = [''d'' \<mapsto> ''%Y-%m-%d''],
                         meta_datetime_columns = [''d''], meta_discrete_columns = {}\<rparr>)) c = Some f \<longrightarrow>
            getitem (h' ! r) c = Some col' \<longrightarrow>
            (\<forall>x \<in> set col'. x = Text sentinel \<or>
               (\<exists>q d s. fromtimestamp utc q = Some d \<and> strftime utc d f = Some s \<and> x = Text s)))"
  by (rule reverse_convert_never_raises) simp

text \<open>
  The table that this call returns.
\<close>

lemma reverse_convert_example:
  "reverse_convert utc
       (fst (fit \<lparr>meta_datetime_format = [''d'' \<mapsto> ''%Y-%m-%d''], meta_datetime_columns = [''d''],
                  meta_discrete_columns = {}\<rparr>))
       0 [[(''d'', [Num (Fin 1672531200), Missing, Num (Fin (- 1)), Text ''x''])]]
   = (Inr 1, [[(''d'', [Num (Fin 1672531200), Missing, Num (Fin (- 1)), Text ''x''])],
              [(''d'', [Text ''2023-01-01'', Text ''No Datetime'', Text ''No Datetime'',
                        Text ''No Datetime''])]])"
  by code_simp

text \<open>
  Claim C3 says that \<^verbatim>\<open>convert\<close> never raises to its caller. The per-cell rules hold
  (\<open>datetime_formatter_missing\<close>, \<open>datetime_formatter_parse_failure\<close>, \<open>convert_cells\<close>),
  and no cell makes \<^verbatim>\<open>convert\<close> raise (\<open>convert_raises\<close>, \<open>convert_returns\<close>). But on a
  table without the datetime column \<^verbatim>\<open>b\<close>, \<^verbatim>\<open>result_data[column]\<close> raises
  \<^verbatim>\<open>KeyError\<close> out of \<^verbatim>\<open>convert\<close>, where the loop of \<^verbatim>\<open>reverse_convert\<close> tests
  \<^verbatim>\<open>column in result_data.columns\<close> and goes on.
\<close>

theorem convert_raises_on_absent_column:
  "fst (convert utc
     (fst (fit \<lparr>meta_datetime_format = [''a'' \<mapsto> ''%Y-%m-%d'', ''b'' \<mapsto> ''%Y-%m-%d''],
                meta_datetime_columns = [''a'', ''b''], meta_discrete_columns = {}\<rparr>))
     0 [[(''a'', [Text ''2023-01-01'', Missing])]]) = Inl (KeyError ''b'')
   \<and> fst (reverse_convert utc
     (fst (fit \<lparr>meta_datetime_format = [''a'' \<mapsto> ''%Y-%m-%d'', ''b'' \<mapsto> ''%Y-%m-%d''],
                meta_datetime_columns = [''a'', ''b''], meta_discrete_columns = {}\<rparr>))
     0 [[(''a'', [Num (Fin 1672531200), Missing])]]) = Inr 1"
  by code_simp

text \<open>
  Claim C4, as the code has it. Let \<open>c\<close> be a datetime column with format \<open>f\<close>, present in
  the table given to \<^verbatim>\<open>reverse_convert\<close>, and let its cell \<open>i\<close> hold a number. If the number
  is finite with a value inside the inclusive range from 0 to 253402300799, the ends 0 and
  253402300799 among them, it passes the range test, and the cell becomes the string that
  \<^verbatim>\<open>datetime.fromtimestamp\<close> and \<^verbatim>\<open>strftime\<close> render it to under \<open>f\<close>, or the sentinel when
  one of the two raises. If its value is below 0 or above 253402300799, as -1 and
  253402300800 are, or it is an infinite float, the cell becomes the sentinel.
\<close>

theorem reverse_convert_range_check:
  assumes "distinct (meta_datetime_columns m)" and "distinct (columns (h ! a))"
    and "a < length h"
    and "c \<in> set (meta_datetime_columns m)" and "meta_datetime_format m c = Some f"
    and "getitem (h ! a) c = Some col" and "i < length col" and "col ! i = Num x"
  shows "\<exists>r h' col'. reverse_convert L (fst (fit m)) a h = (Inr r, h')
     \<and> getitem (h' ! r) c = Some col' \<and> length col' = length col
     \<and> (\<forall>q. x = Fin q \<or> (\<exists>k. x = PyInt k \<and> q = of_int k) \<longrightarrow> 0 \<le> q \<longrightarrow> q \<le> 253402300799 \<longrightarrow>
           col' ! i = Text (case Option.bind (fromtimestamp L q) (\<lambda>d. strftime L d f) of
                              None \<Rightarrow> sentinel | Some s \<Rightarrow> s))
     \<and> (\<forall>q. x = Fin q \<or> (\<exists>k. x = PyInt k \<and> q = of_int k) \<longrightarrow> q < 0 \<or> 253402300799 < q \<longrightarrow>
           col' ! i = Text sentinel)
     \<and> (x = PosInf \<or> x = NegInf \<longrightarrow> col' ! i = Text sentinel)"
proof -
  let ?self = "fst (fit m)"
  have us: "c \<in> set (datetime_columns ?self)"
    and F: "datetime_formats ?self c = Some f" and dist: "distinct (datetime_columns ?self)"
    using assms(1,4,5) by (simp_all add: fit_datetime_columns fit_datetime_formats)
  from reverse_returns [where self = "fst (fit m)" and L = L and a = a and h = h, OF fit_usable_has_format]
  obtain r h' where run: "reverse_convert L ?self a h = (Inr r, h')"
    by blast
  let ?col' = "map (\<lambda>v. column_timestamp_formatter L v f) col"
  have col': "getitem (h' ! r) c = Some ?col'"
    by (rule reverse_cells [OF dist run us F assms(6)])
  have cell: "?col' ! i = column_timestamp_formatter L (Num x) f"
    using assms(7,8) by simp
  have "?col' ! i = Text (case Option.bind (fromtimestamp L q) (\<lambda>d. strftime L d f) of
                              None \<Rightarrow> sentinel | Some s \<Rightarrow> s)"
    if "x = Fin q \<or> (\<exists>k. x = PyInt k \<and> q = of_int k)" and "0 \<le> q" and "q \<le> 253402300799" for q
    using that cell by (auto simp: column_timestamp_formatter_num)
  moreover have "?col' ! i = Text sentinel"
    if "x = Fin q \<or> (\<exists>k. x = PyInt k \<and> q = of_int k)" and "q < 0 \<or> 253402300799 < q" for q :: rat
    using that cell by (auto simp: column_timestamp_formatter_num)
  moreover have "?col' ! i = Text sentinel" if "x = PosInf \<or> x = NegInf"
    using that cell by (auto simp: column_timestamp_formatter_num)
  ultimately show ?thesis
    using run col' by (intro exI [of _ r] exI [of _ h'] exI [of _ ?col']) simp
qed

text \<open>
  An instance in UTC: the upper end 253402300799 is rendered as the last second of the year
  9999.
\<close>

theorem reverse_convert_range_check_witness:
  "\<exists>r h' col'.
     reverse_convert utc
       (fst (fit \<lparr>meta_datetime_format = [''d'' \<mapsto> ''%Y-%m-%d %H:%M:%S''],
                  meta_datetime_columns = [''d''], meta_discrete_columns = {}\<rparr>))
       0 [[(''d'', [Num (PyInt 0), Num (PyInt 253402300799), Num (PyInt (- 1)),
                    Num (PyInt 253402300800)])]] = (Inr r, h')
     \<and> getitem (h' ! r) ''d'' = Some col' \<and> col' ! 1 = Text ''9999-12-31 23:59:59''"
proof -
  let ?m = "\<lparr>meta_datetime_format = [''d'' \<mapsto> ''%Y-%m-%d %H:%M:%S''],
             meta_datetime_columns = [''d''], meta_discrete_columns = {}\<rparr>"
  let ?col = "[Num (PyInt 0), Num (PyInt 253402300799), Num (PyInt (- 1)),
               Num (PyInt 253402300800) :: civil cell]"
  let ?h = "[[(''d'', ?col)]]"
  have 1: "distinct (meta_datetime_columns ?m)" and 2: "distinct (columns (?h ! 0))"
    and 3: "0 < length ?h" and 4: "''d'' \<in> set (meta_datetime_columns ?m)"
    and 5: "meta_datetime_format ?m ''d'' = Some ''%Y-%m-%d %H:%M:%S''"
    and 6: "getitem (?h ! 0) ''d'' = Some ?col" and 7: "1 < length ?col"
    and 8: "?col ! 1 = Num (PyInt 253402300799)"
    by (simp_all add: columns_def getitem_def)
  have r: "(case Option.bind (fromtimestamp utc 253402300799)
                (\<lambda>d. strftime utc d ''%Y-%m-%d %H:%M:%S'') of
              None \<Rightarrow> sentinel | Some s \<Rightarrow> s) = ''9999-12-31 23:59:59''"
    by code_simp
  from reverse_convert_range_check [OF 1 2 3 4 5 6 7 8, of utc]
  obtain r h' col' where "reverse_convert utc (fst (fit ?m)) 0 ?h = (Inr r, h')"
    and "getitem (h' ! r) ''d'' = Some col'"
    and "\<forall>q. PyInt 253402300799 = Fin q \<or> (\<exists>k. PyInt 253402300799 = PyInt k \<and> q = of_int k) \<longrightarrow>
           0 \<le> q \<longrightarrow> q \<le> 253402300799 \<longrightarrow>
           col' ! 1 = Text (case Option.bind (fromtimestamp utc q)
                              (\<lambda>d. strftime utc d ''%Y-%m-%d %H:%M:%S'') of
                              None \<Rightarrow> sentinel | Some s \<Rightarrow> s)"
    by blast
  moreover from this(3) have "col' ! 1 = Text (case Option.bind (fromtimestamp utc 253402300799)
                              (\<lambda>d. strftime utc d ''%Y-%m-%d %H:%M:%S'') of
                              None \<Rightarrow> sentinel | Some s \<Rightarrow> s)"
    by (drule_tac x = 253402300799 in spec) simp
  ultimately show ?thesis
    using r by auto
qed

text \<open>The four timestamps of the claim in UTC: the two ends and their two neighbours.\<close>

lemma reverse_convert_range_scenario:
  "reverse_convert utc
     (fst (fit \<lparr>meta_datetime_format = [''d'' \<mapsto> ''%Y-%m-%d %H:%M:%S''],
                meta_datetime_columns = [''d''], meta_discrete_columns = {}\<rparr>))
     0 [[(''d'', [Num (PyInt 0), Num (PyInt 253402300799), Num (PyInt (- 1)),
                  Num (PyInt 253402300800)])]]
   = (Inr 1,
      [[(''d'', [Num (PyInt 0), Num (PyInt 253402300799), Num (PyInt (- 1)),
                 Num (PyInt 253402300800)])],
       [(''d'', [Text ''1970-01-01 00:00:00'', Text ''9999-12-31 23:59:59'',
                 Text ''No Datetime'', Text ''No Datetime''])]])"
  by code_simp

text \<open>
  Claim C4 as stated fails where it says that 0 and 253402300799 produce a formatted string
  and not the sentinel. \<^verbatim>\<open>datetime.fromtimestamp\<close> gives local time: with \<^verbatim>\<open>TZ=Asia/Tokyo\<close>
  the timestamp 253402300799 is in the local year 10000, \<^verbatim>\<open>fromtimestamp\<close> raises, and the
  cell is the sentinel. And in UTC, under the format \<^verbatim>\<open>'No Datetime'\<close>, which has no
  directive, the rendering of 0 is the sentinel itself.
\<close>

theorem upper_end_sentinel_counterexample:
  "reverse_convert tokyo
     (fst (fit \<lparr>meta_datetime_format = [''d'' \<mapsto> ''%Y-%m-%d %H:%M:%S''],
                meta_datetime_columns = [''d''], meta_discrete_columns = {}\<rparr>))
     0 [[(''d'', [Num (PyInt 253402300799)])]]
   = (Inr 1, [[(''d'', [Num (PyInt 253402300799)])], [(''d'', [Text ''No Datetime''])]])
   \<and> reverse_convert utc
     (fst (fit \<lparr>meta_datetime_format = [''d'' \<mapsto> ''No Datetime''],
                meta_datetime_columns = [''d''], meta_discrete_columns = {}\<rparr>))
     0 [[(''d'', [Num (PyInt 0)])]]
   = (Inr 1, [[(''d'', [Num (PyInt 0)])], [(''d'', [Text ''No Datetime''])]])"
  by code_simp

text \<open>
  Claim C5, as the code has it. A column \<open>c\<close> that the metadata classifies as datetime and
  that has no key in the format dictionary is a dead column. When there is a usable datetime
  column, the table that \<^verbatim>\<open>convert\<close> returns does not have \<open>c\<close>. \<^verbatim>\<open>reverse_convert\<close>
  removes no column: the table it returns has \<open>c\<close> exactly when its input has.
\<close>

theorem dead_column_removed_by_convert:
  assumes "a < length h"
    and "c \<in> set (meta_datetime_columns m)" and "meta_datetime_format m c = None"
  shows "c \<in> set (dead_columns (fst (fit m)))
     \<and> (datetime_columns (fst (fit m)) \<noteq> [] \<longrightarrow>
          (\<forall>r h'. convert L (fst (fit m)) a h = (Inr r, h') \<longrightarrow> c \<notin> set (columns (h' ! r))))
     \<and> (\<forall>r h'. reverse_convert L (fst (fit m)) a h = (Inr r, h') \<longrightarrow>
          (c \<in> set (columns (h' ! r)) \<longleftrightarrow> c \<in> set (columns (h ! a))))"
proof -
  let ?self = "fst (fit m)"
  have dead: "c \<in> set (dead_columns ?self)"
    using assms(2,3) by (simp add: fit_dead_columns)
  have "c \<notin> set (columns (h' ! r))"
    if "datetime_columns ?self \<noteq> []" and "convert L ?self a h = (Inr r, h')" for r h'
    using convert_columns [OF that(1) assms(1) that(2)] dead by simp
  moreover have "c \<in> set (columns (h' ! r)) \<longleftrightarrow> c \<in> set (columns (h ! a))"
    if "reverse_convert L ?self a h = (Inr r, h')" for r h'
    using reverse_columns [OF that assms(1)] by simp
  ultimately show ?thesis
    using dead by blast
qed

text \<open>
  An instance: the dead column \<^verbatim>\<open>x\<close> is gone from the converted table.
\<close>

theorem dead_column_removed_by_convert_witness:
  "''x'' \<notin> set (columns (snd (convert utc
       (fst (fit \<lparr>meta_datetime_format = [''d'' \<mapsto> ''%Y-%m-%d''],
                  meta_datetime_columns = [''d'', ''x''], meta_discrete_columns = {}\<rparr>))
       0 [[(''x'', [Text ''?'']), (''d'', [Text ''2023-01-01''])]]) ! 2))"
proof -
  let ?m = "\<lparr>meta_datetime_format = [''d'' \<mapsto> ''%Y-%m-%d''],
             meta_datetime_columns = [''d'', ''x''], meta_discrete_columns = {}\<rparr>"
  let ?h = "[[(''x'', [Text ''?'']), (''d'', [Text ''2023-01-01'' :: civil cell])]]"
  have ne: "datetime_columns (fst (fit ?m)) \<noteq> []"
    by (simp add: fit_datetime_columns)
  have run: "convert utc (fst (fit ?m)) 0 ?h = (Inr 2, snd (convert utc (fst (fit ?m)) 0 ?h))"
    by code_simp
  from dead_column_removed_by_convert [of 0 ?h "''x''" ?m utc] ne run
  show ?thesis by simp
qed

text \<open>
  Claim C5 as stated fails twice. With no usable datetime column, \<^verbatim>\<open>convert\<close> returns
  its input with the dead column \<^verbatim>\<open>x\<close> in it; and \<^verbatim>\<open>reverse_convert\<close> keeps a dead
  column that its input has.
\<close>

theorem dead_column_kept_counterexample:
  "''x'' \<in> set (dead_columns (fst (fit \<lparr>meta_datetime_format = Map.empty,
        meta_datetime_columns = [''x''], meta_discrete_columns = {}\<rparr>)))
   \<and> convert utc (fst (fit \<lparr>meta_datetime_format = Map.empty,
        meta_datetime_columns = [''x''], meta_discrete_columns = {}\<rparr>)) 0 [[(''x'', [Text ''?''])]]
      = (Inr 0, [[(''x'', [Text ''?''])]])
   \<and> ''x'' \<in> set (dead_columns (fst (fit \<lparr>meta_datetime_format = [''d'' \<mapsto> ''%Y-%m-%d''],
        meta_datetime_columns = [''d'', ''x''], meta_discrete_columns = {}\<rparr>)))
   \<and> reverse_convert utc (fst (fit \<lparr>meta_datetime_format = [''d'' \<mapsto> ''%Y-%m-%d''],
        meta_datetime_columns = [''d'', ''x''], meta_discrete_columns = {}\<rparr>)) 0
        [[(''x'', [Text ''?'']), (''d'', [Num (Fin 0)])]]
      = (Inr 1, [[(''x'', [Text ''?'']), (''d'', [Num (Fin 0)])],
                 [(''x'', [Text ''?'']), (''d'', [Text ''1970-01-01''])]])"
  by code_simp

text \<open>
  Claim C6, as the code has it. \<^verbatim>\<open>fit\<close> calls \<^verbatim>\<open>change_column_type\<close> on the usable
  columns exactly when every one of them is in the discrete set of the metadata (the set
  difference of the guard is empty), and then \<^verbatim>\<open>remove_column\<close> on the dead columns.
\<close>

theorem fit_reclassifies_when_all_discrete:
  "snd (fit m) =
     (if set (datetime_columns (fst (fit m))) \<subseteq> meta_discrete_columns m
      then [ChangeColumnType (datetime_columns (fst (fit m))) ''discrete'' ''datetime'']
      else [])
     @ [RemoveColumn (dead_columns (fst (fit m)))]"
  by (simp add: fit_def split: prod.splits)

text \<open>
  An instance: the usable column \<^verbatim>\<open>d\<close> is discrete, and is reclassified.
\<close>

theorem fit_reclassifies_when_all_discrete_witness:
  "snd (fit \<lparr>meta_datetime_format = [''d'' \<mapsto> ''%Y-%m-%d''],
       meta_datetime_columns = [''d'', ''x''], meta_discrete_columns = {''d'', ''k''}\<rparr>)
     = [ChangeColumnType [''d''] ''discrete'' ''datetime'', RemoveColumn [''x'']]"
  using fit_reclassifies_when_all_discrete [of "\<lparr>meta_datetime_format = [''d'' \<mapsto> ''%Y-%m-%d''],
       meta_datetime_columns = [''d'', ''x''], meta_discrete_columns = {''d'', ''k''}\<rparr>"]
  by (simp add: fit_datetime_columns fit_dead_columns)

text \<open>
  Claim C6 as stated fails in both directions. The usable column \<^verbatim>\<open>d\<close> is not in the
  discrete set, and no reclassification is called; it is in the discrete set, and the
  reclassification is called.
\<close>

theorem fit_reclassify_counterexample:
  "datetime_columns (fst (fit \<lparr>meta_datetime_format = [''d'' \<mapsto> ''%Y-%m-%d''],
       meta_datetime_columns = [''d''], meta_discrete_columns = {}\<rparr>)) = [''d'']
   \<and> ''d'' \<notin> meta_discrete_columns \<lparr>meta_datetime_format = [''d'' \<mapsto> ''%Y-%m-%d''],
       meta_datetime_columns = [''d''], meta_discrete_columns = {}\<rparr>
   \<and> snd (fit \<lparr>meta_datetime_format = [''d'' \<mapsto> ''%Y-%m-%d''],
       meta_datetime_columns = [''d''], meta_discrete_columns = {}\<rparr>) = [RemoveColumn []]
   \<and> datetime_columns (fst (fit \<lparr>meta_datetime_format = [''d'' \<mapsto> ''%Y-%m-%d''],
       meta_datetime_columns = [''d''], meta_discrete_columns = {''d''}\<rparr>)) = [''d'']
   \<and> ''d'' \<in> meta_discrete_columns \<lparr>meta_datetime_format = [''d'' \<mapsto> ''%Y-%m-%d''],
       meta_datetime_columns = [''d''], meta_discrete_columns = {''d''}\<rparr>
   \<and> snd (fit \<lparr>meta_datetime_format = [''d'' \<mapsto> ''%Y-%m-%d''],
       meta_datetime_columns = [''d''], meta_discrete_columns = {''d''}\<rparr>)
       = [ChangeColumnType [''d''] ''discrete'' ''datetime'', RemoveColumn []]"
  by (simp add: fit_def)

text \<open>
  Claim C7, as the code has it. A column of the datetime set of the metadata becomes a usable
  column exactly when the format dictionary has a key for it, whatever the value, and a dead
  column exactly when it has none; no other column becomes either.
\<close>

theorem fit_partitions_by_key:
  "(\<forall>c \<in> set (meta_datetime_columns m).
      (c \<in> set (datetime_columns (fst (fit m))) \<longleftrightarrow> meta_datetime_format m c \<noteq> None)
      \<and> (c \<in> set (dead_columns (fst (fit m))) \<longleftrightarrow> meta_datetime_format m c = None))
   \<and> (\<forall>c. c \<notin> set (meta_datetime_columns m) \<longrightarrow>
        c \<notin> set (datetime_columns (fst (fit m))) \<and> c \<notin> set (dead_columns (fst (fit m))))"
  by (simp add: fit_datetime_columns fit_dead_columns)

text \<open>
  An instance: \<^verbatim>\<open>d\<close> has a format, \<^verbatim>\<open>x\<close> has none, \<^verbatim>\<open>n\<close> is no datetime column.
\<close>

theorem fit_partitions_by_key_witness:
  "''d'' \<in> set (datetime_columns (fst (fit \<lparr>meta_datetime_format = [''d'' \<mapsto> ''%Y-%m-%d''],
       meta_datetime_columns = [''d'', ''x''], meta_discrete_columns = {}\<rparr>)))
   \<and> ''x'' \<in> set (dead_columns (fst (fit \<lparr>meta_datetime_format = [''d'' \<mapsto> ''%Y-%m-%d''],
       meta_datetime_columns = [''d'', ''x''], meta_discrete_columns = {}\<rparr>)))
   \<and> ''n'' \<notin> set (datetime_columns (fst (fit \<lparr>meta_datetime_format = [''d'' \<mapsto> ''%Y-%m-%d''],
       meta_datetime_columns = [''d'', ''x''], meta_discrete_columns = {}\<rparr>)))"
  using fit_partitions_by_key [of "\<lparr>meta_datetime_format = [''d'' \<mapsto> ''%Y-%m-%d''],
       meta_datetime_columns = [''d'', ''x''], meta_discrete_columns = {}\<rparr>"]
  by simp

text \<open>
  Claim C7 as stated fails on an empty entry: the format of \<^verbatim>\<open>d\<close> is the empty string,
  and \<^verbatim>\<open>d\<close> is a usable column, not a dead one.
\<close>

theorem fit_empty_format_counterexample:
  "meta_datetime_format \<lparr>meta_datetime_format = [''d'' \<mapsto> ''''],
       meta_datetime_columns = [''d''], meta_discrete_columns = {}\<rparr> ''d'' = Some ''''
   \<and> datetime_columns (fst (fit \<lparr>meta_datetime_format = [''d'' \<mapsto> ''''],
       meta_datetime_columns = [''d''], meta_discrete_columns = {}\<rparr>)) = [''d'']
   \<and> dead_columns (fst (fit \<lparr>meta_datetime_format = [''d'' \<mapsto> ''''],
       meta_datetime_columns = [''d''], meta_discrete_columns = {}\<rparr>)) = []"
  by (simp add: fit_def)

text \<open>
  Claim C8. With no usable datetime column, \<^verbatim>\<open>convert\<close> and \<^verbatim>\<open>reverse_convert\<close> return
  the table they are given and leave the store as it is.
\<close>

theorem no_datetime_columns_identity:
  assumes "datetime_columns self = []"
  shows "convert L self a h = (Inr a, h) \<and> reverse_convert L self a h = (Inr a, h)"
  using assms by (simp add: convert_def reverse_convert_def)

text \<open>
  An instance: after a \<^verbatim>\<open>fit\<close> that finds only the dead column \<^verbatim>\<open>d\<close>, the table comes
  back with \<^verbatim>\<open>d\<close> still in it.
\<close>

theorem no_datetime_columns_identity_witness:
  "convert utc (fst (fit \<lparr>meta_datetime_format = Map.empty, meta_datetime_columns = [''d''],
       meta_discrete_columns = {}\<rparr>)) 0 [[(''d'', [Text ''2023-01-01'']), (''n'', [Num (Fin 1)])]]
     = (Inr 0, [[(''d'', [Text ''2023-01-01'']), (''n'', [Num (Fin 1)])]])
   \<and> reverse_convert utc (fst (fit \<lparr>meta_datetime_format = Map.empty,
       meta_datetime_columns = [''d''], meta_discrete_columns = {}\<rparr>)) 0
       [[(''d'', [Text ''2023-01-01'']), (''n'', [Num (Fin 1)])]]
     = (Inr 0, [[(''d'', [Text ''2023-01-01'']), (''n'', [Num (Fin 1)])]])"
  by (rule no_datetime_columns_identity) (simp add: fit_def)

text \<open>
  Claim C9, as the code has it. \<^verbatim>\<open>convert\<close> and \<^verbatim>\<open>reverse_convert\<close> change no table
  that exists when they are called, whether they return or raise. With a usable datetime
  column the table they return is a new object; with none it is the caller's own table.
\<close>

theorem input_table_not_mutated:
  assumes "a < length h"
  shows "(\<forall>res h'. convert L self a h = (res, h') \<longrightarrow>
            (\<forall>b < length h. h' ! b = h ! b)
            \<and> (datetime_columns self \<noteq> [] \<longrightarrow> (\<forall>r. res = Inr r \<longrightarrow> length h \<le> r \<and> r < length h'))
            \<and> (datetime_columns self = [] \<longrightarrow> res = Inr a \<and> h' = h))
     \<and> (\<forall>res h'. reverse_convert L self a h = (res, h') \<longrightarrow>
            (\<forall>b < length h. h' ! b = h ! b)
            \<and> (datetime_columns self \<noteq> [] \<longrightarrow> (\<forall>r. res = Inr r \<longrightarrow> length h \<le> r \<and> r < length h'))
            \<and> (datetime_columns self = [] \<longrightarrow> res = Inr a \<and> h' = h))"
proof -
  have "(\<forall>b < length h. h' ! b = h ! b)
        \<and> (datetime_columns self \<noteq> [] \<longrightarrow> (\<forall>r. res = Inr r \<longrightarrow> length h \<le> r \<and> r < length h'))
        \<and> (datetime_columns self = [] \<longrightarrow> res = Inr a \<and> h' = h)"
    if run: "convert L self a h = (res, h')" for res h'
    using convert_frame [OF assms run] convert_fresh [OF _ assms] run
    by (auto simp: convert_def)
  moreover have "(\<forall>b < length h. h' ! b = h ! b)
        \<and> (datetime_columns self \<noteq> [] \<longrightarrow> (\<forall>r. res = Inr r \<longrightarrow> length h \<le> r \<and> r < length h'))
        \<and> (datetime_columns self = [] \<longrightarrow> res = Inr a \<and> h' = h)"
    if run: "reverse_convert L self a h = (res, h')" for res h'
  proof -
    have "length h \<le> r \<and> r < length h'" if ne: "datetime_columns self \<noteq> []" and r: "res = Inr r" for r
    proof -
      from reverse_nonempty [OF ne run] obtain e where
        lp: "reverse_loop L (datetime_formats self) (datetime_columns self) (length h)
            (h @ [h ! a]) = (e, h')"
        and res: "res = (case e of Some x \<Rightarrow> Inl x | None \<Rightarrow> Inr (length h))"
        by blast
      from res r have "r = length h" by (cases e) auto
      with reverse_loop_frame [OF lp] show ?thesis by simp
    qed
    with reverse_frame [OF run] run show ?thesis
      by (auto simp: reverse_convert_def)
  qed
  ultimately show ?thesis by blast
qed

text \<open>
  An instance: after \<^verbatim>\<open>convert\<close>, the caller's table still holds its string.
\<close>

theorem input_table_not_mutated_witness:
  "snd (convert utc
       (fst (fit \<lparr>meta_datetime_format = [''d'' \<mapsto> ''%Y-%m-%d''],
                  meta_datetime_columns = [''d''], meta_discrete_columns = {}\<rparr>))
       0 [[(''d'', [Text ''2023-01-01''])]]) ! 0 = [(''d'', [Text ''2023-01-01''])]"
proof -
  let ?m = "\<lparr>meta_datetime_format = [''d'' \<mapsto> ''%Y-%m-%d''],
             meta_datetime_columns = [''d''], meta_discrete_columns = {}\<rparr>"
  let ?h = "[[(''d'', [Text ''2023-01-01'' :: civil cell])]]"
  have "0 < length ?h" by simp
  from input_table_not_mutated [OF this, of utc "fst (fit ?m)"]
  have "snd (convert utc (fst (fit ?m)) 0 ?h) ! 0 = ?h ! 0"
    by (metis length_Cons prod.collapse zero_less_Suc)
  then show ?thesis by simp
qed

text \<open>
  Claim C9 as stated fails where it says that each call returns a new table: with no usable
  datetime column the reference returned is the reference given.
\<close>

theorem fast_path_returns_input_counterexample:
  "datetime_columns (fst (fit \<lparr>meta_datetime_format = Map.empty, meta_datetime_columns = [],
       meta_discrete_columns = {}\<rparr>)) = []
   \<and> fst (convert utc (fst (fit \<lparr>meta_datetime_format = Map.empty, meta_datetime_columns = [],
       meta_discrete_columns = {}\<rparr>)) 0 [[(''n'', [Num (Fin 1)])]]) = Inr 0
   \<and> fst (reverse_convert utc (fst (fit \<lparr>meta_datetime_format = Map.empty,
       meta_datetime_columns = [], meta_discrete_columns = {}\<rparr>)) 0 [[(''n'', [Num (Fin 1)])]]) = Inr 0"
  by code_simp

text \<open>
  Claim C10. Let \<open>c\<close> be a datetime column with format \<open>f\<close>, and let its cell \<open>i\<close> in the
  table given to \<^verbatim>\<open>convert\<close> hold a plain number \<open>x\<close>. In the table that \<^verbatim>\<open>convert\<close>
  returns, the cell is not \<open>x\<close> taken as a timestamp: it is what the text \<^verbatim>\<open>str(x)\<close> parses
  to. It is a missing value when \<^verbatim>\<open>strptime\<close> rejects that text under \<open>f\<close>, and the
  timestamp of the parsed datetime when \<^verbatim>\<open>strptime\<close> accepts it.
\<close>

theorem convert_stringifies_number:
  assumes "distinct (meta_datetime_columns m)" and "distinct (columns (h ! a))"
    and "a < length h"
    and "convert L (fst (fit m)) a h = (Inr r, h')"
    and "c \<in> set (meta_datetime_columns m)" and "meta_datetime_format m c = Some f"
    and "getitem (h ! a) c = Some col" and "i < length col" and "col ! i = Num x"
  shows "\<exists>col'. getitem (h' ! r) c = Some col' \<and> length col' = length col
     \<and> col' ! i =
         (case strptime L (str_num L x) f of
            None \<Rightarrow> Missing
          | Some d \<Rightarrow> (case timestamp L d of None \<Rightarrow> Missing | Some t \<Rightarrow> Num (Fin t)))"
proof -
  let ?self = "fst (fit m)"
  have us: "c \<in> set (datetime_columns ?self)" and nd: "c \<notin> set (dead_columns ?self)"
    and F: "datetime_formats ?self c = Some f" and dist: "distinct (datetime_columns ?self)"
    using assms(1,5,6) by (simp_all add: fit_datetime_columns fit_dead_columns fit_datetime_formats)
  let ?col' = "map (\<lambda>v. datetime_formatter L v f) col"
  have col': "getitem (h' ! r) c = Some ?col'"
    by (rule convert_cells [OF assms(3) dist assms(4) us nd F assms(7)])
  have "?col' ! i = datetime_formatter L (Num x) f"
    using assms(8,9) by simp
  also have "\<dots> = (case strptime L (str_num L x) f of
            None \<Rightarrow> Missing
          | Some d \<Rightarrow> (case timestamp L d of None \<Rightarrow> Missing | Some t \<Rightarrow> Num (Fin t)))"
    by (simp add: datetime_formatter_def split: option.splits)
  finally show ?thesis
    using col' by simp
qed

text \<open>
  An instance in UTC, under \<^verbatim>\<open>'%Y%m%d'\<close>: the \<^verbatim>\<open>int\<close> 20230101, whose text is a date, becomes
  the timestamp of that date, 1672531200.
\<close>

theorem convert_stringifies_number_witness:
  "\<exists>col'.
     getitem ([[(''d'', [Num (PyInt 20230101), Num (Fin 1672531200)])],
               [(''d'', [Num (Fin 1672531200), Missing :: civil cell])]] ! 1) ''d'' = Some col'
     \<and> col' ! 0 = Num (Fin 1672531200)"
proof -
  let ?m = "\<lparr>meta_datetime_format = [''d'' \<mapsto> ''%Y%m%d''], meta_datetime_columns = [''d''],
             meta_discrete_columns = {}\<rparr>"
  let ?col = "[Num (PyInt 20230101), Num (Fin 1672531200) :: civil cell]"
  let ?h = "[[(''d'', ?col)]]"
  let ?h' = "[[(''d'', ?col)], [(''d'', [Num (Fin 1672531200), Missing :: civil cell])]]"
  have 1: "distinct (meta_datetime_columns ?m)" and 2: "distinct (columns (?h ! 0))"
    and 3: "0 < length ?h" and 5: "''d'' \<in> set (meta_datetime_columns ?m)"
    and 6: "meta_datetime_format ?m ''d'' = Some ''%Y%m%d''"
    and 7: "getitem (?h ! 0) ''d'' = Some ?col" and 8: "0 < length ?col"
    and 9: "?col ! 0 = Num (PyInt 20230101)"
    by (simp_all add: columns_def getitem_def)
  have 4: "convert utc (fst (fit ?m)) 0 ?h = (Inr 1, ?h')"
    by code_simp
  have e: "(case strptime utc (str_num utc (PyInt 20230101)) ''%Y%m%d'' of
              None \<Rightarrow> Missing
            | Some d \<Rightarrow> (case timestamp utc d of None \<Rightarrow> Missing | Some t \<Rightarrow> Num (Fin t)))
           = (Num (Fin 1672531200) :: civil cell)"
    by code_simp
  from convert_stringifies_number [OF 1 2 3 4 5 6 7 8 9] e
  show ?thesis by auto
qed

text \<open>
  The same call on the whole column: the \<^verbatim>\<open>float\<close> 1672531200.0, a timestamp, has the text
  \<^verbatim>\<open>'1672531200.0'\<close>, which is no date under \<^verbatim>\<open>'%Y%m%d'\<close>, and becomes a missing value.
\<close>

lemma convert_stringifies_number_scenario:
  "convert utc
     (fst (fit \<lparr>meta_datetime_format = [''d'' \<mapsto> ''%Y%m%d''], meta_datetime_columns = [''d''],
                meta_discrete_columns = {}\<rparr>))
     0 [[(''d'', [Num (PyInt 20230101), Num (Fin 1672531200)])]]
   = (Inr 1, [[(''d'', [Num (PyInt 20230101), Num (Fin 1672531200)])],
              [(''d'', [Num (Fin 1672531200), Missing])]])"
  by code_simp

end
